theory Spec2Isabelle
  imports Complex_Main "HOL-Library.Word"
begin

section \<open>Values shared by the audio modules\<close>

text \<open>
  A JavaScript number. The playback rate is read back from persistent storage with
  \<^verbatim>\<open>parseFloat\<close>, so it can be any finite number, \<^verbatim>\<open>NaN\<close> or an infinity.
  A string printed from a number (the stored rate, a speed label \<^verbatim>\<open>`${rate}x`\<close>) is
  represented by the number it prints.
\<close>

datatype jsnum = Fin rat | NaN | PosInf | NegInf

text \<open>
  The \<^verbatim>\<open>playbackRate\<close> of a media element is a finite number: its setter raises a
  \<^verbatim>\<open>TypeError\<close> for \<^verbatim>\<open>NaN\<close> and for an infinity. A finite rate is taken to be one the
  user agent supports.
\<close>

definition finiteRate :: "jsnum \<Rightarrow> bool" where
  "finiteRate r = (case r of Fin q \<Rightarrow> True | NaN \<Rightarrow> False | PosInf \<Rightarrow> False | NegInf \<Rightarrow> False)"

text \<open>Strict inequality of two numbers: \<^verbatim>\<open>NaN\<close> differs from every number.\<close>

definition js_differs :: "jsnum \<Rightarrow> jsnum \<Rightarrow> bool" where
  "js_differs a b = (a = NaN \<or> b = NaN \<or> a \<noteq> b)"

text \<open>Every exception and promise rejection of the modelled code is a value.\<close>

datatype error =
    TypeError                 \<comment> \<open>property access on \<^verbatim>\<open>null\<close> or \<^verbatim>\<open>undefined\<close>\<close>
  | InvalidStateError         \<comment> \<open>\<^verbatim>\<open>start()\<close> on a recognizer that is already started\<close>
  | NotAllowedError           \<comment> \<open>microphone permission denied\<close>
  | DeviceError               \<comment> \<open>any other media or DOM failure\<close>
  | NetworkFailure            \<comment> \<open>\<^verbatim>\<open>fetch\<close> rejected\<close>
  | BodyError                 \<comment> \<open>the response body could not be read or parsed\<close>
  | TTSServerError nat        \<comment> \<open>\<^verbatim>\<open>TTS server error: ${status}\<close>\<close>
  | InvalidAudioResponse      \<comment> \<open>\<^verbatim>\<open>Invalid audio response\<close>\<close>
  | EmptyAudioBlob            \<comment> \<open>\<^verbatim>\<open>Received empty audio blob\<close>\<close>
  | ServerResponded nat string \<comment> \<open>\<^verbatim>\<open>Server responded with ${status}: ${text}\<close>\<close>
  | InlineRejected            \<comment> \<open>\<^verbatim>\<open>playViaInlineElement\<close> rejected\<close>

text \<open>JavaScript truthiness of an optional string: \<^verbatim>\<open>undefined\<close> and \<^verbatim>\<open>''\<close> are falsy.\<close>

definition truthy :: "string option \<Rightarrow> bool" where
  "truthy v = (case v of None \<Rightarrow> False | Some t \<Rightarrow> t \<noteq> [])"

section \<open>AudioPlaybackManager and AudioUnlockUtils: the state\<close>

datatype pstate = IDLE | PLAYING | PAUSED | FINISHED

datatype icon = LoadingIcon | VocalIcon

record vocal_button =
  vb_loading :: bool            \<comment> \<open>\<^verbatim>\<open>classList\<close> contains \<^verbatim>\<open>loading\<close>\<close>
  vb_icon :: "icon option"      \<comment> \<open>the image inside the button, if it is one of the two assets\<close>
  vb_visible :: bool            \<comment> \<open>\<^verbatim>\<open>style.display\<close> / \<^verbatim>\<open>style.visibility\<close>\<close>
  vb_faded :: bool              \<comment> \<open>\<^verbatim>\<open>style.opacity\<close> is 0 and \<^verbatim>\<open>style.pointerEvents\<close> is none\<close>

text \<open>
  A chat message element with the parts of its \<^verbatim>\<open>dataset\<close> and of its control cluster
  that the playback manager reads and writes. A control is present or absent; the
  speed button carries its label.
\<close>

record msg_div =
  messageId :: "string option"
  audioUrl :: "string option"
  currentPosition :: "rat option"
  vocalButton :: "vocal_button option"
  pauseButton :: bool
  playButton :: bool
  replayButton :: bool
  speedButton :: "jsnum option"

record audio_el =
  a_src :: string
  a_playbackRate :: jsnum
  a_paused :: bool
  a_currentTime :: rat
  a_onended :: "nat option"     \<comment> \<open>the message whose end-of-playback handler is attached\<close>

text \<open>
  The fields of \<^verbatim>\<open>AudioPlaybackManager\<close> and \<^verbatim>\<open>AudioUnlockUtils\<close>, the message elements
  of the document (by reference), the persistent store and the platform flags.
\<close>

record audio_state =
  currentlyPlayingMsgDiv :: "nat option"
  globalPlaybackRate :: jsnum
  messageStateMap :: "string option \<rightharpoonup> pstate"
  unlockedAudio :: "audio_el option"
  divs :: "nat \<rightharpoonup> msg_div"
  localStorage :: "string \<rightharpoonup> jsnum"
  isMobileDevice :: bool
  isIOS :: bool
  uaMobile :: bool                 \<comment> \<open>\<^verbatim>\<open>/iPhone|iPad|iPod|Android/i.test(navigator.userAgent)\<close>\<close>
  alwaysReadOutLoud :: bool        \<comment> \<open>the checkbox of that name\<close>
  audioUnlocked :: bool
  audioUnlockAttempts :: nat
  utilsUnlockedAudio :: "audio_el option"   \<comment> \<open>\<^verbatim>\<open>AudioUnlockUtils.unlockedAudio\<close>\<close>
  inlineAudioElement :: "audio_el option"
  inlineInDocument :: bool         \<comment> \<open>the document has an element \<^verbatim>\<open>inline-audio-element\<close>\<close>
  hadUserInteraction :: bool       \<comment> \<open>\<^verbatim>\<open>body.had-user-interaction\<close>\<close>

definition silentSound :: string where
  "silentSound = ''data:audio/mp3;base64,//uQxAAAAAAAAAAAAAAAAAAAAAAAWGluZwAAAA8AAAACAAACcQCAgICAgICAgICAgICAgICAgICAgICAgICAgICAgICAgICAgICAgICAgICAgICAgICA''"

definition upd_div :: "nat \<Rightarrow> (msg_div \<Rightarrow> msg_div) \<Rightarrow> audio_state \<Rightarrow> audio_state" where
  "upd_div d f s = (case divs s d of None \<Rightarrow> s | Some m \<Rightarrow> s\<lparr>divs := (divs s)(d \<mapsto> f m)\<rparr>)"

definition div_messageId :: "nat \<Rightarrow> audio_state \<Rightarrow> string option" where
  "div_messageId d s = (case divs s d of None \<Rightarrow> None | Some m \<Rightarrow> messageId m)"

definition hide_vocal :: "msg_div \<Rightarrow> msg_div" where
  "hide_vocal m = m\<lparr>vocalButton := map_option (\<lambda>v. v\<lparr>vb_visible := False\<rparr>) (vocalButton m)\<rparr>"

section \<open>AudioPlaybackManager: the transport controls\<close>

text \<open>
  \<^verbatim>\<open>updateAudioControls(msgDiv)\<close>: remove the four controls, rebuild them from the state.
  In the state \<open>FINISHED\<close> the values assigned to \<^verbatim>\<open>display\<close> and \<^verbatim>\<open>visibility\<close> end in
  \<^verbatim>\<open>!important\<close>, which a style property does not accept, so both stay as they are: the
  vocal button is faded out instead.
\<close>

definition updateAudioControls :: "nat \<Rightarrow> audio_state \<Rightarrow> audio_state" where
  "updateAudioControls d s =
     (case divs s d of
        None \<Rightarrow> s
      | Some m \<Rightarrow>
          let st = (case messageStateMap s (messageId m) of None \<Rightarrow> IDLE | Some x \<Rightarrow> x);
              m0 = m\<lparr>pauseButton := False, playButton := False, replayButton := False,
                     speedButton := None\<rparr>;
              m1 = (case st of
                      IDLE \<Rightarrow>
                        m0\<lparr>vocalButton :=
                             map_option
                               (\<lambda>v. if alwaysReadOutLoud s \<and> \<not> uaMobile s
                                    then v\<lparr>vb_visible := False\<rparr>
                                    else v\<lparr>vb_visible := True, vb_faded := False\<rparr>)
                               (vocalButton m0)\<rparr>
                    | PLAYING \<Rightarrow>
                        hide_vocal (m0\<lparr>pauseButton := True,
                                        speedButton := Some (globalPlaybackRate s)\<rparr>)
                    | PAUSED \<Rightarrow>
                        hide_vocal (m0\<lparr>playButton := True,
                                        speedButton := Some (globalPlaybackRate s)\<rparr>)
                    | FINISHED \<Rightarrow>
                        m0\<lparr>replayButton := True,
                           vocalButton :=
                             map_option (\<lambda>v. v\<lparr>vb_faded := True\<rparr>) (vocalButton m0)\<rparr>)
          in s\<lparr>divs := (divs s)(d \<mapsto> m1)\<rparr>)"

text \<open>\<^verbatim>\<open>resetAudioState(msgDiv)\<close>\<close>

definition resetAudioState :: "nat \<Rightarrow> audio_state \<Rightarrow> audio_state" where
  "resetAudioState d s =
     (case divs s d of
        None \<Rightarrow> s
      | Some m \<Rightarrow>
          if \<not> truthy (messageId m) then s
          else
            s\<lparr>messageStateMap := (messageStateMap s)(messageId m \<mapsto> IDLE),
              divs := (divs s)(d \<mapsto>
                m\<lparr>vocalButton :=
                     map_option (\<lambda>v. v\<lparr>vb_visible := True, vb_loading := False,
                                       vb_icon := Some VocalIcon\<rparr>) (vocalButton m),
                   pauseButton := False, replayButton := False, playButton := False,
                   speedButton := None\<rparr>)\<rparr>)"

text \<open>Releasing an element: handlers off, \<^verbatim>\<open>pause()\<close>, \<^verbatim>\<open>src = ''\<close>, \<^verbatim>\<open>load()\<close>.\<close>

definition release_inline :: "audio_el \<Rightarrow> audio_el" where
  "release_inline a = a\<lparr>a_onended := None, a_paused := True, a_src := []\<rparr>"

text \<open>\<^verbatim>\<open>releaseAudioResources()\<close>\<close>

definition releaseAudioResources :: "audio_state \<Rightarrow> audio_state" where
  "releaseAudioResources s =
     (let s1 = s\<lparr>unlockedAudio := None\<rparr>;
          s2 = s1\<lparr>inlineAudioElement := map_option release_inline (inlineAudioElement s1)\<rparr>
      in case currentlyPlayingMsgDiv s2 of
           None \<Rightarrow> s2
         | Some d \<Rightarrow>
             let mid = div_messageId d s2;
                 s3 = (if truthy mid
                       then updateAudioControls d
                              (s2\<lparr>messageStateMap := (messageStateMap s2)(mid \<mapsto> FINISHED)\<rparr>)
                       else s2)
             in s3\<lparr>currentlyPlayingMsgDiv := None\<rparr>)"

text \<open>\<^verbatim>\<open>getCurrentPlaybackTime()\<close>\<close>

definition getCurrentPlaybackTime :: "audio_state \<Rightarrow> rat" where
  "getCurrentPlaybackTime s =
     (let t0 = (case inlineAudioElement s of
                  Some a \<Rightarrow> if \<not> a_paused a then a_currentTime a else 0
                | None \<Rightarrow> 0)
      in case unlockedAudio s of
           Some a \<Rightarrow> if \<not> a_paused a then max t0 (a_currentTime a) else t0
         | None \<Rightarrow> t0)"

text \<open>\<^verbatim>\<open>stopCurrentlyPlayingAudio(convertToReplay = true)\<close>\<close>

definition stopCurrentlyPlayingAudio :: "bool \<Rightarrow> audio_state \<Rightarrow> audio_state" where
  "stopCurrentlyPlayingAudio convertToReplay s =
     (case currentlyPlayingMsgDiv s of
        None \<Rightarrow> s
      | Some tempMsgDiv \<Rightarrow>
          let mid = div_messageId tempMsgDiv s in
          if \<not> truthy mid then s
          else
            let currentTime = getCurrentPlaybackTime s;
                s1 = releaseAudioResources s;
                s2 = (if convertToReplay
                      then s1\<lparr>messageStateMap := (messageStateMap s1)(mid \<mapsto> FINISHED)\<rparr>
                      else upd_div tempMsgDiv (\<lambda>m. m\<lparr>currentPosition := Some currentTime\<rparr>)
                             (s1\<lparr>messageStateMap := (messageStateMap s1)(mid \<mapsto> PAUSED)\<rparr>))
            in updateAudioControls tempMsgDiv s2)"

text \<open>
  \<^verbatim>\<open>cyclePlaybackSpeed(msgDiv)\<close>. The repeated re-application of the rate on iOS and the
  pause-and-resume of a playing element there are deferred and leave the rate, the
  store and the labels as they are.
\<close>

definition nextRate :: "jsnum \<Rightarrow> jsnum" where
  "nextRate r = (if r = Fin 1 then Fin (3 / 2) else if r = Fin (3 / 2) then Fin 2 else Fin 1)"

definition cyclePlaybackSpeed :: "nat \<Rightarrow> audio_state \<Rightarrow> audio_state" where
  "cyclePlaybackSpeed d s =
     (let r = nextRate (globalPlaybackRate s);
          s1 = s\<lparr>globalPlaybackRate := r\<rparr>;
          s2 = (if isMobileDevice s1
                then s1\<lparr>inlineAudioElement :=
                          map_option (\<lambda>a. a\<lparr>a_playbackRate := r\<rparr>) (inlineAudioElement s1)\<rparr>
                else s1);
          s3 = s2\<lparr>unlockedAudio := map_option (\<lambda>a. a\<lparr>a_playbackRate := r\<rparr>) (unlockedAudio s2)\<rparr>;
          s4 = s3\<lparr>localStorage := (localStorage s3)(''audioPlaybackRate'' \<mapsto> r)\<rparr>
      in s4\<lparr>divs := (\<lambda>k. map_option
                         (\<lambda>m. m\<lparr>speedButton := map_option (\<lambda>_. r) (speedButton m)\<rparr>)
                         (divs s4 k))\<rparr>)"

section \<open>AudioUnlockUtils: unlocking\<close>

text \<open>
  A step of an operation returns the exception it raised, if any, with the state it
  reached. \<open>and_then\<close> is sequential composition: a raised exception skips the rest.
\<close>

type_synonym step = "audio_state \<Rightarrow> error option \<times> audio_state"

definition and_then ::
    "('s \<Rightarrow> error option \<times> 's) \<Rightarrow> ('s \<Rightarrow> error option \<times> 's) \<Rightarrow> 's \<Rightarrow> error option \<times> 's" where
  "and_then f g s = (case f s of (Some e, s') \<Rightarrow> (Some e, s') | (None, s') \<Rightarrow> g s')"

text \<open>
  What the platform does during one unlock attempt: whether the AudioContext technique
  throws inside its own \<^verbatim>\<open>try\<close> block, which statement outside the inner handlers
  throws (none, the construction or \<^verbatim>\<open>play()\<close> call of the \<open>i\<close>-th silent element, the
  \<^verbatim>\<open>play()\<close> of a new inline element, the \<^verbatim>\<open>play()\<close> of the stored element), and
  which silent \<^verbatim>\<open>play()\<close> promises fulfil.
\<close>

datatype unlock_step = Technique2 nat | Technique3 | StoreUnlocked

record unlock_env =
  contextFault :: bool
  syncFault :: "unlock_step option"
  silentPlayOk :: "nat \<Rightarrow> bool"

definition silentElement :: audio_el where
  "silentElement =
     \<lparr>a_src = silentSound, a_playbackRate = Fin 1, a_paused = True, a_currentTime = 0,
      a_onended = None\<rparr>"

text \<open>Technique 1, the body of its \<^verbatim>\<open>try\<close> block, and the block with its handler.\<close>

definition technique1 :: "unlock_env \<Rightarrow> bool \<Rightarrow> step" where
  "technique1 env forceAttempt s =
     (let hasUserInteraction = (hadUserInteraction s \<or> forceAttempt)
      in if hasUserInteraction \<and> contextFault env then (Some DeviceError, s) else (None, s))"

definition technique1_caught :: "unlock_env \<Rightarrow> bool \<Rightarrow> step" where
  "technique1_caught env forceAttempt s = (None, snd (technique1 env forceAttempt s))"

text \<open>
  Technique 2, the loop over the silent elements. A fulfilled \<^verbatim>\<open>play()\<close> sets
  \<^verbatim>\<open>audioUnlocked\<close> from its \<^verbatim>\<open>then\<close> callback; a rejected one is caught by its
  \<^verbatim>\<open>catch\<close> callback.
\<close>

fun technique2 :: "unlock_env \<Rightarrow> nat list \<Rightarrow> step" where
  "technique2 env [] s = (None, s)"
| "technique2 env (i # rest) s =
     (if syncFault env = Some (Technique2 i) then (Some DeviceError, s)
      else technique2 env rest (if silentPlayOk env i then s\<lparr>audioUnlocked := True\<rparr> else s))"

text \<open>
  \<^verbatim>\<open>createInlineAudioElement()\<close>: when the document has no such element, one is
  created and appended, its \<^verbatim>\<open>play()\<close> is called, and the reference is stored last.
\<close>

definition createInlineAudioElement :: "unlock_env \<Rightarrow> step" where
  "createInlineAudioElement env s =
     (if inlineInDocument s then (None, s)
      else
        (let s1 = s\<lparr>inlineInDocument := True\<rparr>
         in if syncFault env = Some Technique3 then (Some TypeError, s1)
            else (None, s1\<lparr>inlineAudioElement := Some silentElement\<rparr>)))"

text \<open>
  \<^verbatim>\<open>EventSystem.simulateUserInteractions()\<close>: every dispatch has its own handler, so
  nothing is raised. The listeners the synthetic events reach are outside this model.
\<close>

definition simulateUserInteractions :: step where
  "simulateUserInteractions s = (None, s)"

text \<open>The element kept for later use: it is stored, then its \<^verbatim>\<open>play()\<close> is called.\<close>

definition storeUnlockedAudio :: "unlock_env \<Rightarrow> step" where
  "storeUnlockedAudio env s =
     (case utilsUnlockedAudio s of
        Some a \<Rightarrow> (None, s)
      | None \<Rightarrow>
          (let s1 = s\<lparr>utilsUnlockedAudio := Some silentElement\<rparr>
           in if syncFault env = Some StoreUnlocked then (Some DeviceError, s1) else (None, s1)))"

text \<open>The body of the outer \<^verbatim>\<open>try\<close> block of \<^verbatim>\<open>unlockAudio\<close>, up to the timer.\<close>

definition unlock_body :: "unlock_env \<Rightarrow> bool \<Rightarrow> bool \<Rightarrow> step" where
  "unlock_body env forceAttempt preventRecursion =
     and_then (technique1_caught env forceAttempt)
       (and_then (technique2 env [0, 1, 2])
          (and_then (createInlineAudioElement env)
             (and_then (if \<not> preventRecursion then simulateUserInteractions else (\<lambda>s. (None, s)))
                (storeUnlockedAudio env))))"

text \<open>
  \<^verbatim>\<open>unlockAudio(forceAttempt = false, preventRecursion = false)\<close>: how the returned
  promise settles (\<open>Inl\<close> a rejection, \<open>Inr\<close> the value it resolves with) and the state
  once it has settled and the callbacks of the attempt have run. The handler of the
  outer \<^verbatim>\<open>try\<close> block resolves \<^verbatim>\<open>false\<close>; the timer resolves \<^verbatim>\<open>true\<close>.
\<close>

definition unlockAudio ::
    "unlock_env \<Rightarrow> bool \<Rightarrow> bool \<Rightarrow> audio_state \<Rightarrow> (error + bool) \<times> audio_state" where
  "unlockAudio env forceAttempt preventRecursion s =
     (if audioUnlocked s \<and> \<not> forceAttempt then (Inr True, s)
      else if audioUnlockAttempts s > 5 \<and> \<not> forceAttempt then (Inr False, s)
      else
        let s1 = s\<lparr>audioUnlockAttempts := audioUnlockAttempts s + 1\<rparr>
        in case unlock_body env forceAttempt preventRecursion s1 of
             (Some e, s2) \<Rightarrow> (Inr False, s2)
           | (None, s2) \<Rightarrow> (Inr True, s2\<lparr>audioUnlocked := True\<rparr>))"

section \<open>AudioPlaybackManager: starting and replaying playback\<close>

record play_env =
  unlockEnv :: unlock_env
  inlinePlayOk :: bool          \<comment> \<open>\<^verbatim>\<open>playViaInlineElement\<close> resolves\<close>

text \<open>What \<^verbatim>\<open>dataset\<close> stores for a value: its string.\<close>

definition dataset_string :: "string option \<Rightarrow> string" where
  "dataset_string v = (case v of None \<Rightarrow> ''undefined'' | Some t \<Rightarrow> t)"

text \<open>
  \<^verbatim>\<open>AudioUnlockUtils.playViaInlineElement(audioUrl)\<close>. The element's own play, pause
  and ended listeners (which keep \<^verbatim>\<open>dataset.isPlaying\<close> and
  \<^verbatim>\<open>dataset.savedPlaybackRate\<close>) are not modelled.
\<close>

definition playViaInlineElement :: "bool \<Rightarrow> string option \<Rightarrow> step" where
  "playViaInlineElement ok url s =
     (case inlineAudioElement s of
        None \<Rightarrow> (Some InlineRejected, s)
      | Some a \<Rightarrow>
          let a1 = a\<lparr>a_src := dataset_string url\<rparr>
          in if ok then (None, s\<lparr>inlineAudioElement := Some (a1\<lparr>a_paused := False\<rparr>)\<rparr>)
             else (Some InlineRejected, s\<lparr>inlineAudioElement := Some a1\<rparr>))"

text \<open>\<^verbatim>\<open>playMessageAudio\<close>, the statements before \<^verbatim>\<open>await AudioUnlockUtils.unlockAudio()\<close>.\<close>

definition playMessageAudio_begin :: "nat \<Rightarrow> string option \<Rightarrow> audio_state \<Rightarrow> audio_state" where
  "playMessageAudio_begin d url s =
     (let s0 = upd_div d (\<lambda>m. m\<lparr>audioUrl := Some (dataset_string url)\<rparr>) s
      in if currentlyPlayingMsgDiv s0 \<noteq> None \<and> currentlyPlayingMsgDiv s0 \<noteq> Some d
         then stopCurrentlyPlayingAudio False s0
         else s0)"

text \<open>The statements between the \<^verbatim>\<open>await\<close> and the \<^verbatim>\<open>try\<close> block.\<close>

definition playMessageAudio_mark :: "nat \<Rightarrow> audio_state \<Rightarrow> audio_state" where
  "playMessageAudio_mark d s =
     (let s1 = upd_div d hide_vocal s;
          s2 = s1\<lparr>currentlyPlayingMsgDiv := Some d\<rparr>
      in s2\<lparr>messageStateMap := (messageStateMap s2)(div_messageId d s2 \<mapsto> PLAYING)\<rparr>)"

text \<open>Assigning \<^verbatim>\<open>playbackRate\<close>, and assigning it when it differs.\<close>

definition set_rate :: "jsnum \<Rightarrow> audio_el \<Rightarrow> error + audio_el" where
  "set_rate r a = (if finiteRate r then Inr (a\<lparr>a_playbackRate := r\<rparr>) else Inl TypeError)"

definition check_rate :: "jsnum \<Rightarrow> audio_el \<Rightarrow> error + audio_el" where
  "check_rate r a = (if js_differs (a_playbackRate a) r then set_rate r a else Inr a)"

text \<open>
  The inline branch of the \<^verbatim>\<open>try\<close> block; the flag is \<^verbatim>\<open>playedViaInline\<close>, which is
  set as soon as \<^verbatim>\<open>playViaInlineElement\<close> has resolved. An exception of the rate
  assignment after that is caught by the inner handler, and the update of the controls
  and the end-of-playback handler are skipped.
\<close>

definition play_inline :: "play_env \<Rightarrow> nat \<Rightarrow> string option \<Rightarrow> audio_state \<Rightarrow> bool \<times> audio_state" where
  "play_inline env d url s =
     (if uaMobile s \<and> inlineAudioElement s \<noteq> None then
        (case playViaInlineElement (inlinePlayOk env) url s of
           (Some e, s1) \<Rightarrow> (False, s1)
         | (None, s1) \<Rightarrow>
             (case inlineAudioElement s1 of
                None \<Rightarrow> (True, updateAudioControls d s1)
              | Some a \<Rightarrow>
                  (case set_rate (globalPlaybackRate s1) a of
                     Inl e \<Rightarrow> (True, s1)
                   | Inr a1 \<Rightarrow>
                       let s3 = updateAudioControls d (s1\<lparr>inlineAudioElement := Some a1\<rparr>)
                       in (True, s3\<lparr>inlineAudioElement :=
                                      map_option (\<lambda>a. a\<lparr>a_onended := Some d\<rparr>)
                                        (inlineAudioElement s3)\<rparr>))))
      else (False, s))"

text \<open>
  The branch with a dedicated element. \<^verbatim>\<open>audioUrl.substring\<close> raises on a missing URL.
  The new element is stored before its rate is assigned, and the assignment raises for
  a rate that is not finite. The retry ladder is started and not awaited: its first
  \<^verbatim>\<open>play()\<close> comes after a timer, so the element is still paused when the function
  returns.
\<close>

definition newAudio :: audio_el where
  "newAudio =
     \<lparr>a_src = [], a_playbackRate = Fin 1, a_paused = True, a_currentTime = 0, a_onended = None\<rparr>"

definition play_dedicated :: "nat \<Rightarrow> string option \<Rightarrow> step" where
  "play_dedicated d url s =
     (case url of
        None \<Rightarrow> (Some TypeError, s)
      | Some u \<Rightarrow>
          (case set_rate (globalPlaybackRate s) newAudio of
             Inl e \<Rightarrow> (Some e, s\<lparr>unlockedAudio := Some newAudio\<rparr>)
           | Inr a \<Rightarrow>
               (None, updateAudioControls d
                        (s\<lparr>unlockedAudio := Some (a\<lparr>a_src := u, a_onended := Some d\<rparr>)\<rparr>))))"

text \<open>The \<^verbatim>\<open>try\<close> block with its handler, which calls \<^verbatim>\<open>resetAudioState\<close>.\<close>

definition playMessageAudio_try :: "play_env \<Rightarrow> nat \<Rightarrow> string option \<Rightarrow> audio_state \<Rightarrow> audio_state" where
  "playMessageAudio_try env d url s =
     (case play_inline env d url s of
        (True, s1) \<Rightarrow> s1
      | (False, s1) \<Rightarrow>
          (case play_dedicated d url s1 of
             (None, s2) \<Rightarrow> s2
           | (Some e, s2) \<Rightarrow> resetAudioState d s2))"

text \<open>
  \<^verbatim>\<open>playMessageAudio(msgDiv, audioUrl)\<close>. A reference to no element stands for
  \<^verbatim>\<open>null\<close>, whose \<^verbatim>\<open>dataset\<close> cannot be read.
\<close>

definition playMessageAudio :: "play_env \<Rightarrow> nat \<Rightarrow> string option \<Rightarrow> step" where
  "playMessageAudio env d url s =
     (case divs s d of
        None \<Rightarrow> (Some TypeError, s)
      | Some m \<Rightarrow>
          (case unlockAudio (unlockEnv env) False False (playMessageAudio_begin d url s) of
             (Inl e, s2) \<Rightarrow> (Some e, s2)
           | (Inr b, s2) \<Rightarrow> (None, playMessageAudio_try env d url (playMessageAudio_mark d s2))))"

text \<open>
  \<^verbatim>\<open>replayAudio(msgDiv, audioUrl)\<close>, and the check of the elements' rates that it
  schedules after the playback has started. The rate of the inline element is assigned
  outside any \<^verbatim>\<open>try\<close> block: for a rate that is not finite the call rejects there.
\<close>

definition assign_inline_rate :: step where
  "assign_inline_rate t =
     (if isMobileDevice t then
        (case inlineAudioElement t of
           None \<Rightarrow> (None, t)
         | Some a \<Rightarrow>
             (case set_rate (globalPlaybackRate t) a of
                Inl e \<Rightarrow> (Some e, t)
              | Inr a1 \<Rightarrow> (None, t\<lparr>inlineAudioElement := Some a1\<rparr>)))
      else (None, t))"


text \<open>
  The check that runs from the timer: each element whose rate differs from the global
  rate is assigned it, the dedicated element first.
\<close>

definition recheck_dedicated :: step where
  "recheck_dedicated t =
     (case unlockedAudio t of
        None \<Rightarrow> (None, t)
      | Some a \<Rightarrow>
          (case check_rate (globalPlaybackRate t) a of
             Inl e \<Rightarrow> (Some e, t)
           | Inr a1 \<Rightarrow> (None, t\<lparr>unlockedAudio := Some a1\<rparr>)))"

definition recheck_inline :: step where
  "recheck_inline t =
     (if isMobileDevice t then
        (case inlineAudioElement t of
           None \<Rightarrow> (None, t)
         | Some a \<Rightarrow>
             (case check_rate (globalPlaybackRate t) a of
                Inl e \<Rightarrow> (Some e, t)
              | Inr a1 \<Rightarrow> (None, t\<lparr>inlineAudioElement := Some a1\<rparr>)))
      else (None, t))"

definition replayRateCheck :: step where
  "replayRateCheck = and_then recheck_dedicated recheck_inline"


definition entryPosition :: "nat \<Rightarrow> audio_state \<Rightarrow> rat option" where
  "entryPosition d s = (case divs s d of None \<Rightarrow> None | Some m \<Rightarrow> currentPosition m)"


section \<open>TTSManager: requesting and speaking\<close>

record tts_response =
  r_ok :: bool
  r_status :: nat
  r_contentType :: "string option"     \<comment> \<open>\<^verbatim>\<open>headers.get('content-type')\<close>\<close>
  r_body :: "8 word list"              \<comment> \<open>the bytes of the blob\<close>

datatype tts_fetch = FetchRejected | FetchResponse tts_response

text \<open>\<^verbatim>\<open>String.prototype.includes\<close>\<close>

fun str_includes :: "string \<Rightarrow> string \<Rightarrow> bool" where
  "str_includes [] sub = (sub = [])"
| "str_includes (c # cs) sub = (take (length sub) (c # cs) = sub \<or> str_includes cs sub)"

text \<open>
  \<^verbatim>\<open>requestTTS(text)\<close>, given what \<^verbatim>\<open>fetch\<close> settles with and the URL that
  \<^verbatim>\<open>URL.createObjectURL\<close> returns. The handler of its \<^verbatim>\<open>try\<close> block logs and rethrows.
\<close>

definition requestTTS :: "tts_fetch \<Rightarrow> string \<Rightarrow> error + string" where
  "requestTTS res objectUrl =
     (case res of
        FetchRejected \<Rightarrow> Inl NetworkFailure
      | FetchResponse r \<Rightarrow>
          if \<not> r_ok r then Inl (TTSServerError (r_status r))
          else if (case r_contentType r of None \<Rightarrow> True | Some c \<Rightarrow> \<not> str_includes c ''audio/'')
          then Inl InvalidAudioResponse
          else if length (r_body r) = 0 then Inl EmptyAudioBlob
          else Inr objectUrl)"

record speak_env =
  speakUnlock :: unlock_env            \<comment> \<open>the unlock attempt of \<^verbatim>\<open>speakMessage\<close> itself\<close>
  ttsFetch :: "string \<Rightarrow> tts_fetch"     \<comment> \<open>what the request for a text settles with\<close>
  objectUrl :: string
  playEnv :: play_env

definition vocal_loading :: "msg_div \<Rightarrow> msg_div" where
  "vocal_loading m =
     m\<lparr>vocalButton :=
         map_option (\<lambda>v. v\<lparr>vb_loading := True, vb_icon := Some LoadingIcon\<rparr>) (vocalButton m)\<rparr>"

definition vocal_default :: "msg_div \<Rightarrow> msg_div" where
  "vocal_default m =
     m\<lparr>vocalButton :=
         map_option (\<lambda>v. v\<lparr>vb_loading := False, vb_icon := Some VocalIcon\<rparr>) (vocalButton m)\<rparr>"

text \<open>The \<^verbatim>\<open>try\<close> block of \<^verbatim>\<open>speakMessage\<close>: the value returned or the exception raised.\<close>

definition speak_try :: "speak_env \<Rightarrow> nat \<Rightarrow> string \<Rightarrow> audio_state \<Rightarrow> (error + string) \<times> audio_state" where
  "speak_try env d txt s =
     (let s1 = stopCurrentlyPlayingAudio False s;
          s2 = upd_div d vocal_loading s1
      in case unlockAudio (speakUnlock env) False False s2 of
           (Inl e, s3) \<Rightarrow> (Inl e, s3)
         | (Inr b, s3) \<Rightarrow>
             (case requestTTS (ttsFetch env txt) (objectUrl env) of
                Inl e \<Rightarrow> (Inl e, s3)
              | Inr url \<Rightarrow>
                  let s4 = upd_div d (\<lambda>m. m\<lparr>audioUrl := Some url\<rparr>) s3
                  in case playMessageAudio (playEnv env) d (Some url) s4 of
                       (Some e, s5) \<Rightarrow> (Inl e, s5)
                     | (None, s5) \<Rightarrow> (Inr url, s5)))"

text \<open>
  \<^verbatim>\<open>speakMessage(msgDiv, text, audioPlaybackManager)\<close>: how its promise settles. The
  handler puts the vocal button back and rethrows.
\<close>

definition speakMessage :: "speak_env \<Rightarrow> nat \<Rightarrow> string \<Rightarrow> audio_state \<Rightarrow> (error + string) \<times> audio_state" where
  "speakMessage env d txt s =
     (case divs s d of
        None \<Rightarrow> (Inl TypeError, stopCurrentlyPlayingAudio False s)
      | Some m \<Rightarrow>
          (case speak_try env d txt s of
             (Inr url, s') \<Rightarrow> (Inr url, s')
           | (Inl e, s') \<Rightarrow> (Inl e, upd_div d vocal_default s')))"

definition entryVocal :: "nat \<Rightarrow> audio_state \<Rightarrow> vocal_button option" where
  "entryVocal d s = (case divs s d of None \<Rightarrow> None | Some m \<Rightarrow> vocalButton m)"

section \<open>Example states and environments\<close>

text \<open>The manager as its object literal declares it, on a desktop browser.\<close>

definition audio0 :: audio_state where
  "audio0 =
     \<lparr>currentlyPlayingMsgDiv = None, globalPlaybackRate = Fin 1, messageStateMap = Map.empty,
      unlockedAudio = None, divs = Map.empty, localStorage = Map.empty,
      isMobileDevice = False, isIOS = False, uaMobile = False, alwaysReadOutLoud = False,
      audioUnlocked = False, audioUnlockAttempts = 0, utilsUnlockedAudio = None,
      inlineAudioElement = None, inlineInDocument = False, hadUserInteraction = False\<rparr>"

definition bot_message :: "string \<Rightarrow> msg_div" where
  "bot_message mid =
     \<lparr>messageId = Some mid, audioUrl = None, currentPosition = None,
      vocalButton = Some \<lparr>vb_loading = False, vb_icon = Some VocalIcon, vb_visible = True,
                          vb_faded = False\<rparr>,
      pauseButton = False, playButton = False, replayButton = False, speedButton = None\<rparr>"

text \<open>An attempt in which nothing fails, and one in which only technique 1 fails.\<close>

definition calm_unlock :: unlock_env where
  "calm_unlock = \<lparr>contextFault = False, syncFault = None, silentPlayOk = (\<lambda>i. True)\<rparr>"

definition context_failing_unlock :: unlock_env where
  "context_failing_unlock = \<lparr>contextFault = True, syncFault = None, silentPlayOk = (\<lambda>i. False)\<rparr>"

definition calm_play :: play_env where
  "calm_play = \<lparr>unlockEnv = calm_unlock, inlinePlayOk = True\<rparr>"

text \<open>Two messages (elements 2 and 3), the first of which is being played.\<close>

definition two_messages :: audio_state where
  "two_messages =
     audio0\<lparr>divs := [2 \<mapsto> (bot_message ''msg_a'')\<lparr>audioUrl := Some ''blob:a''\<rparr>,
                      3 \<mapsto> bot_message ''msg_b''],
            currentlyPlayingMsgDiv := Some 2,
            messageStateMap := [Some ''msg_a'' \<mapsto> PLAYING],
            unlockedAudio := Some \<lparr>a_src = ''blob:a'', a_playbackRate = Fin 1, a_paused = False,
                                   a_currentTime = 2, a_onended = Some 2\<rparr>\<rparr>"

text \<open>A synthesis response with a success status, an audio content type and no bytes.\<close>

definition empty_audio_response :: tts_response where
  "empty_audio_response =
     \<lparr>r_ok = True, r_status = 200, r_contentType = Some ''audio/mpeg'', r_body = []\<rparr>"

definition empty_audio_env :: speak_env where
  "empty_audio_env =
     \<lparr>speakUnlock = calm_unlock, ttsFetch = (\<lambda>t. FetchResponse empty_audio_response),
      objectUrl = ''blob:x'', playEnv = calm_play\<rparr>"

text \<open>The rate \<^verbatim>\<open>initialize()\<close> ends with: \<^verbatim>\<open>1\<close>, or \<^verbatim>\<open>parseFloat\<close> of the stored item.\<close>

definition initialRate :: "(string \<rightharpoonup> jsnum) \<Rightarrow> jsnum" where
  "initialRate store = (case store ''audioPlaybackRate'' of None \<Rightarrow> Fin 1 | Some v \<Rightarrow> v)"

definition rateDomain :: "jsnum set" where
  "rateDomain = {Fin 1, Fin (3 / 2), Fin 2}"

text \<open>Every speed button of the document shows the rate \<open>r\<close>.\<close>

definition labelsShow :: "jsnum \<Rightarrow> audio_state \<Rightarrow> bool" where
  "labelsShow r s = (\<forall>k m l. divs s k = Some m \<and> speedButton m = Some l \<longrightarrow> l = r)"

section \<open>RecordingManager: the state\<close>

record user_input =
  ui_value :: string
  ui_readOnly :: bool

record mic_stream =
  ms_id :: nat
  ms_active :: bool              \<comment> \<open>\<^verbatim>\<open>MediaStream.active\<close>\<close>

record recognizer =
  rec_started :: bool            \<comment> \<open>between \<^verbatim>\<open>start()\<close> and the end of the engine\<close>

datatype ctx_state = CtxRunning | CtxSuspended | CtxClosed

text \<open>
  What \<^verbatim>\<open>this.recordRTC\<close> holds: a recorder of the library, or the object with
  \<^verbatim>\<open>getBlob\<close> and \<^verbatim>\<open>destroy\<close> only that the fallback recorder leaves there when it
  stops.
\<close>

datatype recorder_ref = RecordRTCInstance | BlobHolder

text \<open>The messages shown with \<^verbatim>\<open>alert\<close>, by what they say.\<close>

datatype alert =
    RecognitionUnsupported       \<comment> \<open>speech recognition is not supported by this browser\<close>
  | MicrophoneInaccessible       \<comment> \<open>the microphone cannot be reached, check the permissions\<close>
  | RecognitionAlreadyRunning    \<comment> \<open>the recognition service is running already, refresh the page\<close>
  | RecorderLoadFailed           \<comment> \<open>the recording library could not be loaded\<close>
  | TranscriptionFailed          \<comment> \<open>error during recognition, try again\<close>

text \<open>What the recording manager asks of the chat interface.\<close>

datatype chat_event =
    AppendUser string | GetBotResponse string | GetBotResponseAndAudio string
  | SubmitForm string | ThinkingOn | ThinkingOff

text \<open>
  The deferred callbacks: the timers the manager sets and the callbacks it hands to the
  recorder and to the script loader.
\<close>

datatype task =
    SetupRecognition             \<comment> \<open>the timer of the click handler, 100 ms\<close>
  | RestartRecognition           \<comment> \<open>the timer of \<^verbatim>\<open>recognition.onend\<close>, 100 ms\<close>
  | FinishStop bool              \<comment> \<open>the timer of \<^verbatim>\<open>stopRecording(keep)\<close>, 100 ms\<close>
  | RecorderStopped bool         \<comment> \<open>the callback of \<^verbatim>\<open>recordRTC.stopRecording\<close>\<close>
  | MediaRecorderStopped         \<comment> \<open>\<^verbatim>\<open>mediaRecorder.onstop\<close>\<close>
  | ScriptLoad                   \<comment> \<open>the recorder script settles: \<^verbatim>\<open>onload\<close> or \<^verbatim>\<open>onerror\<close>\<close>
  | DrawWaveform
  | CheckMicrophone
  | StopTracks                   \<comment> \<open>the delayed \<^verbatim>\<open>track.stop()\<close> on Safari\<close>

record rec_state =
  isRecording :: bool
  micStream :: "mic_stream option"
  recognition :: "recognizer option"
  audioContext :: "ctx_state option"
  analyser :: bool
  source :: "nat option"              \<comment> \<open>the stream the source node reads\<close>
  recordingStartTime :: nat
  recordingTimer :: bool
  speechRecognitionSupported :: bool
  processingTranscript :: bool
  isAndroid :: bool
  isEdge :: bool
  isSafari :: bool                    \<comment> \<open>\<^verbatim>\<open>UtilityManager.isSafari()\<close>\<close>
  iosDevice :: bool                   \<comment> \<open>\<^verbatim>\<open>/iPad|iPhone|iPod/.test(navigator.userAgent)\<close>\<close>
  userInput :: "user_input option"
  recordingUI :: "bool option"        \<comment> \<open>the recording interface, shown or hidden\<close>
  currentTranscript :: string         \<comment> \<open>\<^verbatim>\<open>_currentTranscript\<close>\<close>
  recordRTC :: "recorder_ref option"
  mediaRecorder :: bool               \<comment> \<open>a fallback recorder that is not inactive\<close>
  autoTranscribeVoice :: bool         \<comment> \<open>the setting of that name\<close>
  readAloud :: bool                   \<comment> \<open>the setting \<^verbatim>\<open>alwaysReadOutLoud\<close>\<close>
  timers :: "task list"
  alerts :: "alert list"
  micRequests :: nat                  \<comment> \<open>the calls of \<^verbatim>\<open>getUserMedia\<close> so far\<close>
  chatLog :: "chat_event list"
  playback :: audio_state

section \<open>The transcription client\<close>

record stt_response =
  s_ok :: bool
  s_status :: nat
  s_text :: string
  s_json :: "string option option"    \<comment> \<open>no JSON, or the parsed body's \<^verbatim>\<open>transcript\<close>\<close>

datatype stt_fetch = SttRejected | SttResponse stt_response

record stt_request =
  q_file :: "8 word list"
  q_compress :: bool                  \<comment> \<open>the form has the field \<^verbatim>\<open>compress = 'true'\<close>\<close>
  q_language :: string

text \<open>One request: \<^verbatim>\<open>fetch\<close>, the status check, \<^verbatim>\<open>response.json()\<close>.\<close>

definition post_speech :: "stt_fetch \<Rightarrow> error + string option" where
  "post_speech f =
     (case f of
        SttRejected \<Rightarrow> Inl NetworkFailure
      | SttResponse r \<Rightarrow>
          if \<not> s_ok r then Inl (ServerResponded (s_status r) (s_text r))
          else (case s_json r of None \<Rightarrow> Inl BodyError | Some t \<Rightarrow> Inr t))"

definition compressionThreshold :: nat where
  "compressionThreshold = 100000"

text \<open>
  \<^verbatim>\<open>sendAudioToBackend(audioBlob)\<close>, with the language selected in the page: how the
  promise settles and the requests made, in order. The server answers a request.
\<close>

definition sendAudioToBackend ::
    "(stt_request \<Rightarrow> stt_fetch) \<Rightarrow> string \<Rightarrow> 8 word list
      \<Rightarrow> (error + string option) \<times> stt_request list" where
  "sendAudioToBackend server currentLanguage audioBlob =
     (let compressed = \<lparr>q_file = audioBlob, q_compress = True, q_language = currentLanguage\<rparr>;
          plain = \<lparr>q_file = audioBlob, q_compress = False, q_language = currentLanguage\<rparr>
      in if length audioBlob > compressionThreshold then
           (case post_speech (server compressed) of
              Inr t \<Rightarrow> (Inr t, [compressed])
            | Inl e \<Rightarrow> (post_speech (server plain), [compressed, plain]))
         else (post_speech (server plain), [plain]))"

section \<open>RecordingManager: the operations\<close>

text \<open>What the platform and the page answer during a handler.\<close>

record rec_env =
  getUserMedia :: "error + nat"        \<comment> \<open>a rejection, or the new stream\<close>
  now :: nat
  sharedContext :: "ctx_state option"  \<comment> \<open>an audio context of another module to reuse\<close>
  recordRTCLoaded :: bool              \<comment> \<open>\<^verbatim>\<open>typeof RecordRTC !== 'undefined'\<close>\<close>
  scriptLoads :: bool
  recorderThrows :: bool               \<comment> \<open>the recorder cannot be constructed\<close>
  recognitionStart :: "error option"   \<comment> \<open>what \<^verbatim>\<open>start()\<close> of a new recognizer raises\<close>
  iosUnlock :: unlock_env
  unlockUtilsOnWindow :: bool          \<comment> \<open>\<^verbatim>\<open>window.AudioUnlockUtils\<close> is set\<close>
  playbackOnWindow :: bool             \<comment> \<open>the playback manager can be reached from \<^verbatim>\<open>window\<close>\<close>
  hasAppendMessage :: bool             \<comment> \<open>\<^verbatim>\<open>typeof appendMessage === 'function'\<close>\<close>
  hasGetBotResponse :: bool
  hasGetBotResponseAndAudio :: bool
  formExists :: bool                   \<comment> \<open>the page has the form \<^verbatim>\<open>chatForm\<close>\<close>
  sttServer :: "stt_request \<Rightarrow> stt_fetch"
  selectedLanguage :: string
  recordedBlob :: "8 word list"

definition schedule :: "task \<Rightarrow> rec_state \<Rightarrow> rec_state" where
  "schedule t s = s\<lparr>timers := timers s @ [t]\<rparr>"

definition set_input :: "string \<Rightarrow> rec_state \<Rightarrow> rec_state" where
  "set_input v s = s\<lparr>userInput := map_option (\<lambda>u. u\<lparr>ui_value := v\<rparr>) (userInput s)\<rparr>"

definition inputValue :: "rec_state \<Rightarrow> string option" where
  "inputValue s = map_option ui_value (userInput s)"

text \<open>
  The white space and line terminators that \<^verbatim>\<open>String.prototype.trim\<close> removes, among
  the characters below 256.
\<close>

definition isSpace :: "char \<Rightarrow> bool" where
  "isSpace c =
     (c = CHR '' '' \<or> c = CHR 0x09 \<or> c = CHR 0x0A \<or> c = CHR 0x0B \<or> c = CHR 0x0C \<or>
      c = CHR 0x0D \<or> c = CHR 0xA0)"

definition trim :: "string \<Rightarrow> string" where
  "trim t = rev (dropWhile isSpace (rev (dropWhile isSpace t)))"

text \<open>\<^verbatim>\<open>recognition.abort(); recognition.stop()\<close>: the engine stops listening.\<close>

definition abort_recognizer :: "rec_state \<Rightarrow> rec_state" where
  "abort_recognizer s = s\<lparr>recognition := map_option (\<lambda>r. r\<lparr>rec_started := False\<rparr>) (recognition s)\<rparr>"

text \<open>\<^verbatim>\<open>hideRecordingUI()\<close>: \<^verbatim>\<open>this.userInput.blur()\<close> raises without an input field.\<close>

definition hideRecordingUI :: "rec_state \<Rightarrow> error option \<times> rec_state" where
  "hideRecordingUI s =
     (case recordingUI s of
        None \<Rightarrow> (None, s)
      | Some shown \<Rightarrow>
          (case userInput s of
             None \<Rightarrow> (Some TypeError, s\<lparr>recordingUI := Some False\<rparr>)
           | Some u \<Rightarrow> (None, s\<lparr>recordingUI := Some False\<rparr>)))"

text \<open>
  The branch of \<^verbatim>\<open>stopRecording\<close> that stops the recorder or the recognizer. On
  Android any object in \<^verbatim>\<open>this.recordRTC\<close> is asked to \<^verbatim>\<open>stopRecording\<close>; the object
  left by a fallback recording has no such method, and the call raises.
\<close>

definition stop_capture :: "bool \<Rightarrow> rec_state \<Rightarrow> error option \<times> rec_state" where
  "stop_capture shouldKeepTranscript s =
     (if isAndroid s then
        and_then
          (\<lambda>t. if shouldKeepTranscript
               then hideRecordingUI (t\<lparr>chatLog := chatLog t @ [ThinkingOn]\<rparr>)
               else (None, t))
          (\<lambda>t. case recordRTC t of
                 Some RecordRTCInstance \<Rightarrow>
                   (None, schedule (RecorderStopped shouldKeepTranscript) t)
               | Some BlobHolder \<Rightarrow> (Some TypeError, t)
               | None \<Rightarrow>
               if mediaRecorder t
               then (None, schedule MediaRecorderStopped
                             (t\<lparr>processingTranscript := shouldKeepTranscript,
                                mediaRecorder := False\<rparr>))
               else (None, t))
          s
      else if speechRecognitionSupported s \<and> recognition s \<noteq> None then
        (let s1 = abort_recognizer s
         in (None, if isSafari s1 then s1\<lparr>recognition := None\<rparr> else s1))
      else (None, s))"

text \<open>
  The microphone is released (on Safari each track is disabled and stopped after a
  delay) and the reference cleared; the audio context is closed and cleared.
\<close>

definition release_microphone :: "rec_state \<Rightarrow> rec_state" where
  "release_microphone s =
     (let s1 = (if isSafari s \<and> micStream s \<noteq> None then schedule StopTracks s else s)
      in s1\<lparr>micStream := None\<rparr>)"

definition close_context :: "rec_state \<Rightarrow> rec_state" where
  "close_context s =
     (case audioContext s of
        None \<Rightarrow> s
      | Some c \<Rightarrow> s\<lparr>audioContext := None, analyser := False\<rparr>)"

text \<open>On Android, \<^verbatim>\<open>this.recordRTC\<close> still holds what a fallback recording left.\<close>

definition staleRecorder :: "rec_state \<Rightarrow> bool" where
  "staleRecorder s = (isAndroid s \<and> recordRTC s = Some BlobHolder)"

text \<open>\<^verbatim>\<open>stopRecording(shouldKeepTranscript = false)\<close>, up to the timer it sets.\<close>

definition stopRecording :: "bool \<Rightarrow> rec_state \<Rightarrow> error option \<times> rec_state" where
  "stopRecording shouldKeepTranscript s =
     (if \<not> isRecording s \<and> micStream s = None then (None, s)
      else
        and_then (stop_capture shouldKeepTranscript)
          (and_then
             (\<lambda>t. let t1 = close_context (release_microphone t)
                  in hideRecordingUI (if \<not> shouldKeepTranscript then set_input [] t1 else t1))
             (\<lambda>t. (None, schedule (FinishStop shouldKeepTranscript)
                            (if shouldKeepTranscript \<and> \<not> isAndroid t
                             then t\<lparr>processingTranscript := True\<rparr> else t))))
          (s\<lparr>isRecording := False, recordingTimer := False, recordingStartTime := 0\<rparr>))"

text \<open>\<^verbatim>\<open>submitFormWithTranscript(transcript)\<close>\<close>

definition submitFormWithTranscript :: "rec_env \<Rightarrow> string \<Rightarrow> rec_state \<Rightarrow> rec_state" where
  "submitFormWithTranscript env transcript s =
     (if \<not> formExists env then s
      else set_input [] ((set_input transcript s)\<lparr>chatLog := chatLog s @ [SubmitForm transcript]\<rparr>))"

text \<open>
  The automatic sending of a transcript: the field is emptied, the user's turn is
  appended and the chat request made.
\<close>

definition dispatch_transcript :: "rec_env \<Rightarrow> string \<Rightarrow> rec_state \<Rightarrow> rec_state" where
  "dispatch_transcript env transcript s =
     (let s1 = set_input [] s;
          apiAvailable = (hasGetBotResponse env \<or> hasGetBotResponseAndAudio env);
          s2 = (if hasAppendMessage env
                then s1\<lparr>chatLog := chatLog s1 @ [AppendUser transcript]\<rparr> else s1)
      in if apiAvailable then
           (if readAloud s2 \<and> hasGetBotResponseAndAudio env
            then s2\<lparr>chatLog := chatLog s2 @ [GetBotResponseAndAudio transcript]\<rparr>
            else if hasGetBotResponse env
            then s2\<lparr>chatLog := chatLog s2 @ [GetBotResponse transcript]\<rparr>
            else s2)
         else submitFormWithTranscript env transcript s2)"

text \<open>The timer of \<^verbatim>\<open>stopRecording\<close>.\<close>

definition finish_stop :: "rec_env \<Rightarrow> bool \<Rightarrow> rec_state \<Rightarrow> rec_state" where
  "finish_stop env shouldKeepTranscript s =
     (let s1 = s\<lparr>userInput := map_option (\<lambda>u. u\<lparr>ui_readOnly := False\<rparr>) (userInput s)\<rparr>;
          finish = (\<lambda>t. schedule CheckMicrophone
                          (if \<not> isAndroid t then t\<lparr>processingTranscript := False\<rparr> else t))
      in case userInput s1 of
           Some u \<Rightarrow>
             if shouldKeepTranscript \<and> \<not> isAndroid s1 then
               (let internal = (autoTranscribeVoice s1 \<and> currentTranscript s1 \<noteq> []);
                    transcript = (if internal then currentTranscript s1 else trim (ui_value u));
                    s2 = (if internal then s1\<lparr>currentTranscript := []\<rparr> else s1)
                in if transcript = [] then s2\<lparr>processingTranscript := False\<rparr>
                   else if autoTranscribeVoice s2 then finish (dispatch_transcript env transcript s2)
                   else finish (set_input transcript s2))
             else finish s1
         | None \<Rightarrow> finish s1)"

text \<open>
  The callback of \<^verbatim>\<open>recordRTC.stopRecording\<close>. \<^verbatim>\<open>processAndroidTranscript\<close> returns
  the transcript as it is.
\<close>

definition recorder_stopped :: "rec_env \<Rightarrow> bool \<Rightarrow> rec_state \<Rightarrow> rec_state" where
  "recorder_stopped env shouldKeepTranscript s =
     (let s1 =
        (if shouldKeepTranscript then
           (case fst (sendAudioToBackend (sttServer env) (selectedLanguage env) (recordedBlob env)) of
              Inl e \<Rightarrow> s\<lparr>alerts := alerts s @ [TranscriptionFailed]\<rparr>
            | Inr None \<Rightarrow> s
            | Inr (Some transcript) \<Rightarrow>
                if transcript = [] then s
                else
                  (let s2 = s\<lparr>chatLog := chatLog s @ [ThinkingOff]\<rparr>
                   in if userInput s2 = None then s2
                      else if autoTranscribeVoice s2 then
                        dispatch_transcript env transcript
                          (s2\<lparr>currentTranscript := transcript, processingTranscript := True\<rparr>)
                      else set_input transcript s2))
         else s)
      in s1\<lparr>recordRTC := None\<rparr>)"

text \<open>\<^verbatim>\<open>mediaRecorder.onstop\<close> of the fallback recorder.\<close>

definition media_recorder_stopped :: "rec_env \<Rightarrow> rec_state \<Rightarrow> rec_state" where
  "media_recorder_stopped env s =
     (let s1 = s\<lparr>recordRTC := Some BlobHolder\<rparr>
      in if processingTranscript s1 then
           (let s2 =
              (case fst (sendAudioToBackend (sttServer env) (selectedLanguage env) (recordedBlob env)) of
                 Inl e \<Rightarrow> s1\<lparr>alerts := alerts s1 @ [TranscriptionFailed]\<rparr>
               | Inr None \<Rightarrow> s1
               | Inr (Some transcript) \<Rightarrow>
                   if transcript = [] \<or> userInput s1 = None then s1
                   else if autoTranscribeVoice s1 then
                     dispatch_transcript env transcript (s1\<lparr>currentTranscript := transcript\<rparr>)
                   else set_input transcript s1)
            in s2\<lparr>processingTranscript := False\<rparr>)
         else s1)"

text \<open>\<^verbatim>\<open>fallbackRecording()\<close> and \<^verbatim>\<open>initializeRecordRTC()\<close>\<close>

definition fallbackRecording :: "rec_env \<Rightarrow> rec_state \<Rightarrow> rec_state" where
  "fallbackRecording env s =
     (if recorderThrows env then s\<lparr>alerts := alerts s @ [MicrophoneInaccessible]\<rparr>
      else s\<lparr>mediaRecorder := True\<rparr>)"

definition initializeRecordRTC :: "rec_env \<Rightarrow> rec_state \<Rightarrow> error option \<times> rec_state" where
  "initializeRecordRTC env s =
     (case micStream s of
        None \<Rightarrow> (None, s)
      | Some m \<Rightarrow>
          if \<not> recordRTCLoaded env then (None, fallbackRecording env s)
          else
            (let s1 = (case audioContext s of
                         None \<Rightarrow> s
                       | Some c \<Rightarrow>
                           s\<lparr>audioContext := Some (if c = CtxClosed then CtxRunning else c),
                             analyser := True, source := Some (ms_id m)\<rparr>)
             in if recorderThrows env then (Some DeviceError, s1)
                else (None, s1\<lparr>recordRTC := Some RecordRTCInstance\<rparr>)))"

text \<open>\<^verbatim>\<open>startRecording()\<close>\<close>

definition startRecording :: "rec_env \<Rightarrow> rec_state \<Rightarrow> error option \<times> rec_state" where
  "startRecording env s =
     (if isRecording s then (None, s)
      else
        (let s1 = s\<lparr>recordingUI := map_option (\<lambda>x. True) (recordingUI s),
                     recordingStartTime := now env, recordingTimer := True, isRecording := True\<rparr>;
             s2 = s1\<lparr>userInput := map_option (\<lambda>u. u\<lparr>ui_readOnly := True\<rparr>) (userInput s1)\<rparr>
         in and_then
              (\<lambda>t. if isAndroid t \<and> micStream t \<noteq> None then
                     (if \<not> recordRTCLoaded env then (None, schedule ScriptLoad t)
                      else (case initializeRecordRTC env t of
                              (None, t1) \<Rightarrow> (None, t1)
                            | (Some e, t1) \<Rightarrow> stopRecording False t1))
                   else (None, t))
              (\<lambda>t. (None, schedule DrawWaveform t))
              s2))"

text \<open>The recorder script settles: \<^verbatim>\<open>script.onload\<close> or \<^verbatim>\<open>script.onerror\<close>.\<close>

definition script_settled :: "rec_env \<Rightarrow> rec_state \<Rightarrow> error option \<times> rec_state" where
  "script_settled env s =
     (if scriptLoads env then initializeRecordRTC env s
      else stopRecording False (s\<lparr>alerts := alerts s @ [RecorderLoadFailed]\<rparr>))"

text \<open>
  \<^verbatim>\<open>resetMicrophoneAccess()\<close>; on iOS it drops the recognizer and forces an unlock
  attempt of the playback side.
\<close>

definition resetMicrophoneAccess :: "rec_env \<Rightarrow> rec_state \<Rightarrow> rec_state" where
  "resetMicrophoneAccess env s =
     (let s1 = s\<lparr>micStream := None, source := None, analyser := False, audioContext := None\<rparr>
      in if iosDevice s1
         then (let s2 = s1\<lparr>recognition := None\<rparr>
               in if unlockUtilsOnWindow env
                  then s2\<lparr>playback := snd (unlockAudio (iosUnlock env) True False (playback s2))\<rparr>
                  else s2)
         else s1)"

text \<open>
  The handlers of the recognizer, set by the timer of the click handler:
  \<^verbatim>\<open>onresult\<close> with the joined transcript, \<^verbatim>\<open>onerror\<close> with the error's name,
  \<^verbatim>\<open>onend\<close>.
\<close>

definition recognition_onresult :: "string \<Rightarrow> rec_state \<Rightarrow> rec_state" where
  "recognition_onresult transcript s =
     (if \<not> isRecording s then s
      else if userInput s = None then s
      else if \<not> autoTranscribeVoice s then set_input transcript s
      else s\<lparr>currentTranscript := transcript\<rparr>)"

definition recognition_onerror :: "string \<Rightarrow> rec_state \<Rightarrow> error option \<times> rec_state" where
  "recognition_onerror err s =
     (if err = ''aborted'' \<and> isRecording s then (None, s) else stopRecording False s)"

definition recognition_onend :: "rec_state \<Rightarrow> rec_state" where
  "recognition_onend s = (if isRecording s then schedule RestartRecognition s else s)"

text \<open>The timer of \<^verbatim>\<open>onend\<close>: \<^verbatim>\<open>if (this.isRecording) this.recognition.start()\<close>.\<close>

definition restart_recognition :: "rec_state \<Rightarrow> error option \<times> rec_state" where
  "restart_recognition s =
     (if isRecording s then
        (case recognition s of
           None \<Rightarrow> (Some TypeError, s)
         | Some r \<Rightarrow>
             if rec_started r then (Some InvalidStateError, s)
             else (None, s\<lparr>recognition := Some (r\<lparr>rec_started := True\<rparr>)\<rparr>))
      else (None, s))"

text \<open>The engine ends by itself: it stops listening and its \<^verbatim>\<open>end\<close> event is handled.\<close>

definition recognizer_ended :: "rec_state \<Rightarrow> rec_state" where
  "recognizer_ended s = recognition_onend (abort_recognizer s)"

text \<open>
  The timer of the click handler: a new recognizer with the three handlers is started.
  An \<^verbatim>\<open>InvalidStateError\<close> is reported with an alert, any other exception escapes.
\<close>

definition setup_recognition :: "rec_env \<Rightarrow> rec_state \<Rightarrow> error option \<times> rec_state" where
  "setup_recognition env s =
     (case recognitionStart env of
        None \<Rightarrow> (None, s\<lparr>recognition := Some \<lparr>rec_started = True\<rparr>\<rparr>)
      | Some e \<Rightarrow>
          (let s1 = s\<lparr>recognition := Some \<lparr>rec_started = False\<rparr>\<rparr>
           in if e = InvalidStateError
              then (None, s1\<lparr>alerts := alerts s1 @ [RecognitionAlreadyRunning]\<rparr>)
              else (Some e, s1)))"

text \<open>
  The \<^verbatim>\<open>try\<close> block of the click handler of the voice button. The flag of the result
  says whether the handler returned before the end of the block.
\<close>

definition acquire_microphone :: "rec_env \<Rightarrow> rec_state \<Rightarrow> (error option \<times> bool) \<times> rec_state" where
  "acquire_microphone env s =
     (let s1 = (case micStream s of
                  Some m \<Rightarrow> if \<not> ms_active m then s\<lparr>micStream := None\<rparr> else s
                | None \<Rightarrow> s)
      in case micStream s1 of
           Some m \<Rightarrow> ((None, False), s1)
         | None \<Rightarrow>
             (let s2 = resetMicrophoneAccess env s1;
                  s3 = (if playbackOnWindow env
                        then s2\<lparr>playback := releaseAudioResources (playback s2)\<rparr> else s2)
              in if \<not> speechRecognitionSupported s3 \<and> \<not> isAndroid s3
                 then ((None, True), s3\<lparr>alerts := alerts s3 @ [RecognitionUnsupported]\<rparr>)
                 else
                   (let s4 = s3\<lparr>micRequests := micRequests s3 + 1\<rparr>
                    in case getUserMedia env of
                         Inl e \<Rightarrow> ((Some e, False), s4)
                       | Inr i \<Rightarrow> ((None, False),
                                    s4\<lparr>micStream := Some \<lparr>ms_id = i, ms_active = True\<rparr>\<rparr>))))"

definition prepare_analysis :: "rec_env \<Rightarrow> rec_state \<Rightarrow> rec_state" where
  "prepare_analysis env s =
     (let s1 = (case audioContext s of
                  None \<Rightarrow> s\<lparr>audioContext :=
                             Some (case sharedContext env of None \<Rightarrow> CtxRunning | Some c \<Rightarrow> c)\<rparr>
                | Some c \<Rightarrow> s);
          s2 = (if audioContext s1 = Some CtxClosed then s1\<lparr>audioContext := Some CtxRunning\<rparr>
                else s1);
          s3 = s2\<lparr>analyser := True\<rparr>
      in if source s3 = None \<or> source s3 \<noteq> map_option ms_id (micStream s3)
         then s3\<lparr>source := map_option ms_id (micStream s3)\<rparr>
         else s3)"

definition click_try :: "rec_env \<Rightarrow> rec_state \<Rightarrow> error option \<times> rec_state" where
  "click_try env s =
     (if isRecording s then (None, s)
      else
        (case acquire_microphone env s of
           ((Some e, r), s1) \<Rightarrow> (Some e, s1)
         | ((None, True), s1) \<Rightarrow> (None, s1)
         | ((None, False), s1) \<Rightarrow>
             (case startRecording env (prepare_analysis env s1) of
                (Some e, s2) \<Rightarrow> (Some e, s2)
              | (None, s2) \<Rightarrow>
                  if isAndroid s2 then (None, s2) else (None, schedule SetupRecognition s2))))"

text \<open>
  The click handler of the voice button: the \<^verbatim>\<open>try\<close> block and its handler, which
  stops the recording, schedules a check of the microphone and alerts unless the
  permission was denied.
\<close>

definition voiceButton_click :: "rec_env \<Rightarrow> rec_state \<Rightarrow> error option \<times> rec_state" where
  "voiceButton_click env s =
     (case click_try env s of
        (None, s1) \<Rightarrow> (None, s1)
      | (Some e, s1) \<Rightarrow>
          (case stopRecording False s1 of
             (Some e', s2) \<Rightarrow> (Some e', s2)
           | (None, s2) \<Rightarrow>
               (let s3 = schedule CheckMicrophone s2
                in (None, if e \<noteq> NotAllowedError
                          then s3\<lparr>alerts := alerts s3 @ [MicrophoneInaccessible]\<rparr> else s3))))"

text \<open>
  A sequence of clicks, each with what the platform answers during it. Each handler
  runs to its end before the next click, so the sequence says nothing about a click
  that arrives while an earlier handler awaits the microphone.
\<close>

fun clicks :: "rec_env list \<Rightarrow> rec_state \<Rightarrow> rec_state" where
  "clicks [] s = s"
| "clicks (env # envs) s = clicks envs (snd (voiceButton_click env s))"

text \<open>
  The click handler of the cancel button and the \<^verbatim>\<open>keydown\<close> handler of the document.
  \<^verbatim>\<open>this.userInput.value = ''\<close> raises without an input field.
\<close>

definition cancelButton_click :: "rec_state \<Rightarrow> error option \<times> rec_state" where
  "cancelButton_click s =
     (let s1 = abort_recognizer s
      in case userInput s1 of
           None \<Rightarrow> (Some TypeError, s1)
         | Some u \<Rightarrow> stopRecording False (set_input [] s1))"

definition document_keydown :: "string \<Rightarrow> rec_state \<Rightarrow> error option \<times> rec_state" where
  "document_keydown key s =
     (if key = ''Escape'' \<and> isRecording s then cancelButton_click s else (None, s))"

text \<open>A deferred callback runs: it leaves the list and its handler is called.\<close>

definition fire :: "rec_env \<Rightarrow> task \<Rightarrow> rec_state \<Rightarrow> error option \<times> rec_state" where
  "fire env t s =
     (let s1 = s\<lparr>timers := remove1 t (timers s)\<rparr>
      in case t of
           SetupRecognition \<Rightarrow> setup_recognition env s1
         | RestartRecognition \<Rightarrow> restart_recognition s1
         | FinishStop k \<Rightarrow> (None, finish_stop env k s1)
         | RecorderStopped k \<Rightarrow> (None, recorder_stopped env k s1)
         | MediaRecorderStopped \<Rightarrow> (None, media_recorder_stopped env s1)
         | ScriptLoad \<Rightarrow> script_settled env s1
         | DrawWaveform \<Rightarrow> (None, s1)
         | CheckMicrophone \<Rightarrow> (None, s1)
         | StopTracks \<Rightarrow> (None, s1))"

text \<open>Example: the manager after \<^verbatim>\<open>initialize\<close> on a desktop browser with recognition.\<close>

definition rec0 :: rec_state where
  "rec0 =
     \<lparr>isRecording = False, micStream = None, recognition = None, audioContext = Some CtxRunning,
      analyser = True, source = None, recordingStartTime = 0, recordingTimer = False,
      speechRecognitionSupported = True, processingTranscript = False, isAndroid = False,
      isEdge = False, isSafari = False, iosDevice = False,
      userInput = Some \<lparr>ui_value = [], ui_readOnly = False\<rparr>, recordingUI = Some False,
      currentTranscript = [], recordRTC = None, mediaRecorder = False,
      autoTranscribeVoice = False, readAloud = False, timers = [], alerts = [],
      micRequests = 0, chatLog = [], playback = audio0\<rparr>"

definition failing_server :: "stt_request \<Rightarrow> stt_fetch" where
  "failing_server q =
     (if q_compress q then SttRejected
      else SttResponse \<lparr>s_ok = False, s_status = 500, s_text = ''busy'', s_json = None\<rparr>)"

definition desktop_env :: rec_env where
  "desktop_env =
     \<lparr>getUserMedia = Inr 7, now = 1000, sharedContext = None, recordRTCLoaded = False,
      scriptLoads = False, recorderThrows = False, recognitionStart = None,
      iosUnlock = calm_unlock, unlockUtilsOnWindow = False, playbackOnWindow = True,
      hasAppendMessage = True, hasGetBotResponse = True,
      hasGetBotResponseAndAudio = True, formExists = True, sttServer = failing_server,
      selectedLanguage = ''fr'', recordedBlob = []\<rparr>"

text \<open>A draft typed before the recording starts, with the microphone acquired.\<close>

definition typing :: rec_state where
  "typing = rec0\<lparr>userInput := Some \<lparr>ui_value = ''draft'', ui_readOnly = False\<rparr>,
                 micStream := Some \<lparr>ms_id = 7, ms_active = True\<rparr>\<rparr>"

text \<open>A recording session on the desktop: a click, then the timer that starts the recognizer.\<close>

definition recording1 :: rec_state where
  "recording1 = snd (fire desktop_env SetupRecognition (snd (voiceButton_click desktop_env rec0)))"

text \<open>A blob over the threshold.\<close>

definition big_blob :: "8 word list" where
  "big_blob = replicate 100001 0"

section \<open>What an operation leaves unchanged\<close>

text \<open>
  The fields an unlock attempt never writes: it touches the unlock utilities only.
\<close>

definition frame :: "audio_state \<Rightarrow> audio_state \<Rightarrow> bool" where
  "frame t t' = (messageStateMap t' = messageStateMap t \<and> divs t' = divs t \<and>
     currentlyPlayingMsgDiv t' = currentlyPlayingMsgDiv t \<and>
     globalPlaybackRate t' = globalPlaybackRate t \<and> uaMobile t' = uaMobile t \<and>
     isMobileDevice t' = isMobileDevice t \<and> unlockedAudio t' = unlockedAudio t)"


section \<open>Frame lemmas of the playback manager\<close>

lemma upd_div_proj [simp]:
  "messageStateMap (upd_div d f s) = messageStateMap s"
  "currentlyPlayingMsgDiv (upd_div d f s) = currentlyPlayingMsgDiv s"
  "globalPlaybackRate (upd_div d f s) = globalPlaybackRate s"
  by (simp_all add: upd_div_def split: option.splits)

lemma updateAudioControls_proj [simp]:
  "messageStateMap (updateAudioControls d s) = messageStateMap s"
  "currentlyPlayingMsgDiv (updateAudioControls d s) = currentlyPlayingMsgDiv s"
  "globalPlaybackRate (updateAudioControls d s) = globalPlaybackRate s"
  by (simp_all add: updateAudioControls_def Let_def split: option.splits)

lemma updateAudioControls_id [simp]:
  "div_messageId k (updateAudioControls d s) = div_messageId k s"
  by (simp add: updateAudioControls_def div_messageId_def Let_def hide_vocal_def
           split: option.splits pstate.splits)

lemma updateAudioControls_pos [simp]:
  "entryPosition k (updateAudioControls d s) = entryPosition k s"
  by (simp add: updateAudioControls_def entryPosition_def Let_def hide_vocal_def
           split: option.splits pstate.splits)

lemma div_messageId_frame [simp]:
  "div_messageId k (unlockedAudio_update f1 s) = div_messageId k s"
  "div_messageId k (inlineAudioElement_update f2 s) = div_messageId k s"
  "div_messageId k (messageStateMap_update f3 s) = div_messageId k s"
  "div_messageId k (currentlyPlayingMsgDiv_update f4 s) = div_messageId k s"
  "div_messageId k (globalPlaybackRate_update f5 s) = div_messageId k s"
  "div_messageId k (audioUnlocked_update f6 s) = div_messageId k s"
  "div_messageId k (audioUnlockAttempts_update f7 s) = div_messageId k s"
  "div_messageId k (utilsUnlockedAudio_update f8 s) = div_messageId k s"
  "div_messageId k (localStorage_update f9 s) = div_messageId k s"
  by (simp_all add: div_messageId_def)

lemma entryPosition_frame [simp]:
  "entryPosition k (unlockedAudio_update f1 s) = entryPosition k s"
  "entryPosition k (inlineAudioElement_update f2 s) = entryPosition k s"
  "entryPosition k (messageStateMap_update f3 s) = entryPosition k s"
  "entryPosition k (currentlyPlayingMsgDiv_update f4 s) = entryPosition k s"
  "entryPosition k (globalPlaybackRate_update f5 s) = entryPosition k s"
  "entryPosition k (audioUnlocked_update f6 s) = entryPosition k s"
  "entryPosition k (audioUnlockAttempts_update f7 s) = entryPosition k s"
  "entryPosition k (utilsUnlockedAudio_update f8 s) = entryPosition k s"
  "entryPosition k (localStorage_update f9 s) = entryPosition k s"
  by (simp_all add: entryPosition_def)

lemma releaseAudioResources_proj [simp]:
  "currentlyPlayingMsgDiv (releaseAudioResources s) = None"
  "globalPlaybackRate (releaseAudioResources s) = globalPlaybackRate s"
  "div_messageId k (releaseAudioResources s) = div_messageId k s"
  "entryPosition k (releaseAudioResources s) = entryPosition k s"
  by (simp_all add: releaseAudioResources_def Let_def split: option.splits)


lemma upd_div_id [simp]:
  "(\<And>m. messageId (f m) = messageId m) \<Longrightarrow> div_messageId k (upd_div d f s) = div_messageId k s"
  by (simp add: upd_div_def div_messageId_def split: option.splits)


lemma stop_proj [simp]:
  "globalPlaybackRate (stopCurrentlyPlayingAudio c s) = globalPlaybackRate s"
  "div_messageId k (stopCurrentlyPlayingAudio c s) = div_messageId k s"
  by (simp_all add: stopCurrentlyPlayingAudio_def Let_def split: option.splits)

lemma stop_current:
  "currentlyPlayingMsgDiv s = Some a \<Longrightarrow> truthy (div_messageId a s) \<Longrightarrow>
   currentlyPlayingMsgDiv (stopCurrentlyPlayingAudio c s) = None"
  by (simp add: stopCurrentlyPlayingAudio_def Let_def)

lemma upd_div_pos_other [simp]:
  "k \<noteq> d \<Longrightarrow> entryPosition k (upd_div d f s) = entryPosition k s"
  by (simp add: upd_div_def entryPosition_def split: option.splits)

lemma upd_div_pos_keep [simp]:
  "(\<And>m. currentPosition (f m) = currentPosition m) \<Longrightarrow>
   entryPosition k (upd_div d f s) = entryPosition k s"
  by (simp add: upd_div_def entryPosition_def split: option.splits)

lemma stop_pos_other:
  "currentlyPlayingMsgDiv s \<noteq> Some k \<Longrightarrow>
   entryPosition k (stopCurrentlyPlayingAudio c s) = entryPosition k s"
  by (auto simp add: stopCurrentlyPlayingAudio_def Let_def split: option.splits)

lemma frame_refl [simp]: "frame t t" by (simp add: frame_def)

lemma frame_trans: "frame a b \<Longrightarrow> frame b c \<Longrightarrow> frame a c" by (simp add: frame_def)

lemma and_then_frame:
  assumes f: "\<And>t. frame t (snd (f t))" and g: "\<And>t. frame t (snd (g t))"
  shows "frame t (snd (and_then f g t))"
proof (cases "f t")
  case (Pair e t1)
  have 1: "frame t t1" using f [of t] Pair by simp
  show ?thesis
  proof (cases e)
    case None
    then show ?thesis using Pair 1 g [of t1] by (simp add: and_then_def frame_trans)
  next
    case (Some x)
    then show ?thesis using Pair 1 by (simp add: and_then_def)
  qed
qed

lemma technique2_frame: "frame s (snd (technique2 env is s))"
proof (induction "is" arbitrary: s)
  case Nil
  then show ?case by simp
next
  case (Cons i rest)
  have "frame s (s\<lparr>audioUnlocked := True\<rparr>)" by (simp add: frame_def)
  then show ?case using Cons [of s] Cons [of "s\<lparr>audioUnlocked := True\<rparr>"]
    by (auto intro: frame_trans)
qed

lemma technique1_caught_frame: "frame s (snd (technique1_caught env fa s))"
  by (simp add: technique1_caught_def technique1_def Let_def)

lemma createInline_frame: "frame s (snd (createInlineAudioElement env s))"
  by (simp add: createInlineAudioElement_def frame_def Let_def)

lemma simulate_frame: "frame s (snd ((if \<not> pr then simulateUserInteractions else (\<lambda>s. (None, s))) s))"
  by (simp add: simulateUserInteractions_def)

lemma storeUnlocked_frame: "frame s (snd (storeUnlockedAudio env s))"
  by (simp add: storeUnlockedAudio_def frame_def Let_def split: option.splits)

lemma unlock_body_frame: "frame s (snd (unlock_body env fa pr s))"
  unfolding unlock_body_def
  by (intro and_then_frame technique1_caught_frame technique2_frame createInline_frame
        simulate_frame storeUnlocked_frame)

lemma unlockAudio_frame: "frame s (snd (unlockAudio env fa pr s))"
proof -
  let ?s1 = "s\<lparr>audioUnlockAttempts := audioUnlockAttempts s + 1\<rparr>"
  have a: "frame s ?s1" by (simp add: frame_def)
  have b: "frame ?s1 (snd (unlock_body env fa pr ?s1))" by (rule unlock_body_frame)
  have c: "frame s (snd (unlock_body env fa pr ?s1))" using a b by (rule frame_trans)
  have d: "frame s ((snd (unlock_body env fa pr ?s1))\<lparr>audioUnlocked := True\<rparr>)"
    using c by (simp add: frame_def)
  show ?thesis using c d
    by (auto simp add: unlockAudio_def Let_def split: prod.splits option.splits)
qed

lemma unlockAudio_resolves: "\<exists>b. fst (unlockAudio env fa pr s) = Inr b"
  by (auto simp add: unlockAudio_def Let_def split: prod.splits option.splits)

lemma hide_vocal_fields [simp]:
  "messageId (hide_vocal m) = messageId m"
  "currentPosition (hide_vocal m) = currentPosition m"
  by (simp_all add: hide_vocal_def)



lemma begin_proj [simp]:
  "globalPlaybackRate (playMessageAudio_begin d url s) = globalPlaybackRate s"
  "div_messageId k (playMessageAudio_begin d url s) = div_messageId k s"
  "entryPosition d (playMessageAudio_begin d url s) = entryPosition d s"
  by (simp_all add: playMessageAudio_begin_def Let_def stop_pos_other)

lemma begin_divs: "divs s d \<noteq> None \<Longrightarrow> divs (playMessageAudio_begin d url s) d \<noteq> None"
  by (auto simp add: playMessageAudio_begin_def Let_def upd_div_def stopCurrentlyPlayingAudio_def
      updateAudioControls_def releaseAudioResources_def split: option.splits)


lemma mark_proj [simp]:
  "globalPlaybackRate (playMessageAudio_mark d s) = globalPlaybackRate s"
  "div_messageId k (playMessageAudio_mark d s) = div_messageId k s"
  "entryPosition k (playMessageAudio_mark d s) = entryPosition k s"
  "messageStateMap (playMessageAudio_mark d s) = (messageStateMap s)(div_messageId d s \<mapsto> PLAYING)"
  by (simp_all add: playMessageAudio_mark_def Let_def)

lemma resetAudioState_proj [simp]:
  "globalPlaybackRate (resetAudioState d s) = globalPlaybackRate s"
  "div_messageId k (resetAudioState d s) = div_messageId k s"
  "entryPosition k (resetAudioState d s) = entryPosition k s"
  by (simp_all add: resetAudioState_def div_messageId_def entryPosition_def split: option.splits)

lemma play_inline_proj [simp]:
  "globalPlaybackRate (snd (play_inline env d url s)) = globalPlaybackRate s"
  "div_messageId k (snd (play_inline env d url s)) = div_messageId k s"
  "entryPosition k (snd (play_inline env d url s)) = entryPosition k s"
  "messageStateMap (snd (play_inline env d url s)) = messageStateMap s"
  by (simp_all add: play_inline_def playViaInlineElement_def set_rate_def Let_def
        split: option.splits prod.splits)

lemma play_dedicated_proj [simp]:
  "globalPlaybackRate (snd (play_dedicated d url s)) = globalPlaybackRate s"
  "div_messageId k (snd (play_dedicated d url s)) = div_messageId k s"
  "entryPosition k (snd (play_dedicated d url s)) = entryPosition k s"
  "messageStateMap (snd (play_dedicated d url s)) = messageStateMap s"
  by (simp_all add: play_dedicated_def set_rate_def split: option.splits)

lemma try_proj [simp]:
  "globalPlaybackRate (playMessageAudio_try env d url s) = globalPlaybackRate s"
  "div_messageId k (playMessageAudio_try env d url s) = div_messageId k s"
  "entryPosition k (playMessageAudio_try env d url s) = entryPosition k s"
proof -
  obtain f s1 where i: "play_inline env d url s = (f, s1)" by (cases "play_inline env d url s")
  obtain e s2 where p: "play_dedicated d url s1 = (e, s2)" by (cases "play_dedicated d url s1")
  have e1: "s1 = snd (play_inline env d url s)" using i by simp
  have e2: "s2 = snd (play_dedicated d url s1)" using p by simp
  have a: "globalPlaybackRate s1 = globalPlaybackRate s" "\<And>k. div_messageId k s1 = div_messageId k s"
     "\<And>k. entryPosition k s1 = entryPosition k s"
    by (simp_all add: e1)
  have b: "globalPlaybackRate s2 = globalPlaybackRate s1" "\<And>k. div_messageId k s2 = div_messageId k s1"
     "\<And>k. entryPosition k s2 = entryPosition k s1"
    by (simp_all add: e2)
  show "globalPlaybackRate (playMessageAudio_try env d url s) = globalPlaybackRate s"
    "div_messageId k (playMessageAudio_try env d url s) = div_messageId k s"
    "entryPosition k (playMessageAudio_try env d url s) = entryPosition k s"
    using i p a b by (simp_all add: playMessageAudio_try_def split: bool.splits option.splits)
qed






lemma assign_inline_rate_proj [simp]:
  "globalPlaybackRate (snd (assign_inline_rate s)) = globalPlaybackRate s"
  "entryPosition k (snd (assign_inline_rate s)) = entryPosition k s"
  "divs (snd (assign_inline_rate s)) = divs s"
  by (simp_all add: assign_inline_rate_def set_rate_def split: option.splits)


lemma recheck_proj [simp]:
  "globalPlaybackRate (snd (recheck_dedicated s)) = globalPlaybackRate s"
  "entryPosition k (snd (recheck_dedicated s)) = entryPosition k s"
  "globalPlaybackRate (snd (recheck_inline s)) = globalPlaybackRate s"
  "entryPosition k (snd (recheck_inline s)) = entryPosition k s"
  by (simp_all add: recheck_dedicated_def recheck_inline_def check_rate_def set_rate_def
        split: option.splits)


lemma and_then_cases:
  "and_then f g s = (if fst (f s) = None then g (snd (f s)) else f s)"
  by (cases "f s") (auto simp add: and_then_def split: option.splits)

lemma replayRateCheck_proj [simp]:
  "globalPlaybackRate (snd (replayRateCheck s)) = globalPlaybackRate s"
  "entryPosition k (snd (replayRateCheck s)) = entryPosition k s"
  by (simp_all add: replayRateCheck_def and_then_cases)



lemma two_messages_facts:
  "currentlyPlayingMsgDiv two_messages = Some 2" "divs two_messages 3 \<noteq> None"
  "div_messageId 2 two_messages = Some ''msg_a''" "div_messageId 3 two_messages = Some ''msg_b''"
  "messageStateMap two_messages = [Some ''msg_a'' \<mapsto> PLAYING]"
  "finiteRate (globalPlaybackRate two_messages)"
  by (simp_all add: two_messages_def audio0_def div_messageId_def bot_message_def finiteRate_def)

lemma cycle_rate [simp]: "globalPlaybackRate (cyclePlaybackSpeed d s) = nextRate (globalPlaybackRate s)"
  by (simp add: cyclePlaybackSpeed_def Let_def)

lemma cycle_store: "localStorage (cyclePlaybackSpeed d s) ''audioPlaybackRate'' = Some (nextRate (globalPlaybackRate s))"
  by (simp add: cyclePlaybackSpeed_def Let_def)

lemma cycle_labels: "labelsShow (nextRate (globalPlaybackRate s)) (cyclePlaybackSpeed d s)"
  by (auto simp add: cyclePlaybackSpeed_def Let_def labelsShow_def)

lemma entryVocal_frame [simp]:
  "entryVocal k (unlockedAudio_update f1 s) = entryVocal k s"
  "entryVocal k (inlineAudioElement_update f2 s) = entryVocal k s"
  "entryVocal k (messageStateMap_update f3 s) = entryVocal k s"
  "entryVocal k (currentlyPlayingMsgDiv_update f4 s) = entryVocal k s"
  by (simp_all add: entryVocal_def)

lemma updateAudioControls_vocal:
  "(entryVocal k (updateAudioControls d s) = None) = (entryVocal k s = None)"
  by (simp add: updateAudioControls_def entryVocal_def Let_def hide_vocal_def
           split: option.splits pstate.splits)

lemma releaseAudioResources_vocal:
  "(entryVocal k (releaseAudioResources s) = None) = (entryVocal k s = None)"
  by (simp add: releaseAudioResources_def Let_def updateAudioControls_vocal split: option.splits)

lemma upd_div_vocal_keep:
  "(\<And>m. vocalButton (f m) = vocalButton m) \<Longrightarrow> entryVocal k (upd_div d f s) = entryVocal k s"
  by (simp add: upd_div_def entryVocal_def split: option.splits)

lemma stop_vocal:
  "(entryVocal k (stopCurrentlyPlayingAudio c s) = None) = (entryVocal k s = None)"
  by (simp add: stopCurrentlyPlayingAudio_def Let_def updateAudioControls_vocal
        releaseAudioResources_vocal upd_div_vocal_keep split: option.splits)

lemma vocal_default_result:
  "entryVocal d (upd_div d vocal_default s) =
     map_option (\<lambda>v. v\<lparr>vb_loading := False, vb_icon := Some VocalIcon\<rparr>) (entryVocal d s)"
  by (simp add: upd_div_def entryVocal_def vocal_default_def split: option.splits)

lemma vocal_loading_none:
  "(entryVocal k (upd_div d vocal_loading s) = None) = (entryVocal k s = None)"
  by (simp add: upd_div_def entryVocal_def vocal_loading_def split: option.splits)

lemma speak_empty:
  assumes d: "divs s d \<noteq> None"
    and r: "requestTTS (ttsFetch env txt) (objectUrl env) = Inl e"
  shows "fst (speakMessage env d txt s) = Inl e \<and>
         (entryVocal d s = None \<longrightarrow> entryVocal d (snd (speakMessage env d txt s)) = None) \<and>
         (entryVocal d s \<noteq> None \<longrightarrow>
            (\<exists>v. entryVocal d (snd (speakMessage env d txt s)) = Some v \<and>
                 \<not> vb_loading v \<and> vb_icon v = Some VocalIcon))"
proof -
  let ?s2 = "upd_div d vocal_loading (stopCurrentlyPlayingAudio False s)"
  obtain b s3 where u: "unlockAudio (speakUnlock env) False False ?s2 = (b, s3)"
    by (cases "unlockAudio (speakUnlock env) False False ?s2")
  have f: "frame ?s2 s3" using unlockAudio_frame [of ?s2 "speakUnlock env" False False] u by simp
  obtain bb where bb: "b = Inr bb"
    using unlockAudio_resolves [of "speakUnlock env" False False ?s2] u by auto
  have t: "speak_try env d txt s = (Inl e, s3)"
    using u bb r by (simp add: speak_try_def Let_def)
  obtain m where m: "divs s d = Some m" using d by auto
  have sp: "speakMessage env d txt s = (Inl e, upd_div d vocal_default s3)"
    using t m by (simp add: speakMessage_def)
  have v3: "entryVocal d s3 = entryVocal d ?s2" using f by (simp add: frame_def entryVocal_def)
  have v2: "(entryVocal d ?s2 = None) = (entryVocal d s = None)"
    by (simp add: vocal_loading_none stop_vocal)
  show ?thesis using sp v3 v2 by (auto simp add: vocal_default_result)
qed


section \<open>Starting playback while another message plays\<close>




section \<open>Replay\<close>



section \<open>Cycling the playback rate\<close>

text \<open>
  C5, as the code has it. From a rate in \<open>{1, 1.5, 2}\<close>, three applications of
  \<^verbatim>\<open>cyclePlaybackSpeed\<close> give the rate back, one application goes from \<open>1\<close> to \<open>1.5\<close>,
  from \<open>1.5\<close> to \<open>2\<close> and from \<open>2\<close> to \<open>1\<close>; and from any rate, after one application
  every speed button of the document shows the new rate.
\<close>

theorem cycle_three:
  "(globalPlaybackRate s \<in> rateDomain \<longrightarrow>
      globalPlaybackRate (cyclePlaybackSpeed d3 (cyclePlaybackSpeed d2 (cyclePlaybackSpeed d1 s)))
        = globalPlaybackRate s) \<and>
   (globalPlaybackRate s = Fin 1 \<longrightarrow> globalPlaybackRate (cyclePlaybackSpeed d1 s) = Fin (3 / 2)) \<and>
   (globalPlaybackRate s = Fin (3 / 2) \<longrightarrow> globalPlaybackRate (cyclePlaybackSpeed d1 s) = Fin 2) \<and>
   (globalPlaybackRate s = Fin 2 \<longrightarrow> globalPlaybackRate (cyclePlaybackSpeed d1 s) = Fin 1) \<and>
   labelsShow (globalPlaybackRate (cyclePlaybackSpeed d1 s)) (cyclePlaybackSpeed d1 s)"
  using cycle_labels [of s d1] by (auto simp add: rateDomain_def nextRate_def)

theorem cycle_three_witness:
  "globalPlaybackRate audio0 \<in> rateDomain \<and>
   globalPlaybackRate (cyclePlaybackSpeed 0 (cyclePlaybackSpeed 0 (cyclePlaybackSpeed 0 audio0))) = Fin 1 \<and>
   globalPlaybackRate (cyclePlaybackSpeed 0 audio0) = Fin (3 / 2) \<and>
   globalPlaybackRate (cyclePlaybackSpeed 0 (audio0\<lparr>globalPlaybackRate := Fin (3 / 2)\<rparr>)) = Fin 2 \<and>
   globalPlaybackRate (cyclePlaybackSpeed 0 (audio0\<lparr>globalPlaybackRate := Fin 2\<rparr>)) = Fin 1 \<and>
   labelsShow (Fin (3 / 2)) (cyclePlaybackSpeed 0 audio0)"
proof -
  have d: "globalPlaybackRate audio0 \<in> rateDomain" by (simp add: audio0_def rateDomain_def)
  have r: "globalPlaybackRate audio0 = Fin 1" by (simp add: audio0_def)
  show ?thesis
    using cycle_three [of audio0 0 0 0]
      cycle_three [of "audio0\<lparr>globalPlaybackRate := Fin (3 / 2)\<rparr>" 0 0 0]
      cycle_three [of "audio0\<lparr>globalPlaybackRate := Fin 2\<rparr>" 0 0 0] d r
    by (simp add: nextRate_def rateDomain_def)
qed

text \<open>
  C5 as stated fails for a rate outside \<open>{1, 1.5, 2}\<close>: with \<open>3\<close> in the store,
  \<^verbatim>\<open>initialize\<close> sets the rate to \<open>3\<close>, and three applications end at \<open>2\<close>.
\<close>

theorem cycle_three_cex:
  "globalPlaybackRate
     (cyclePlaybackSpeed 0 (cyclePlaybackSpeed 0 (cyclePlaybackSpeed 0
        (audio0\<lparr>globalPlaybackRate := initialRate [''audioPlaybackRate'' \<mapsto> Fin 3]\<rparr>))))
   \<noteq> globalPlaybackRate (audio0\<lparr>globalPlaybackRate := initialRate [''audioPlaybackRate'' \<mapsto> Fin 3]\<rparr>)"
  by (simp add: initialRate_def nextRate_def)

text \<open>
  C10. From any rate, one application of \<^verbatim>\<open>cyclePlaybackSpeed\<close> leaves the global rate
  in \<open>{1, 1.5, 2}\<close> and stores that rate under \<^verbatim>\<open>audioPlaybackRate\<close>.
\<close>

theorem cycle_reestablishes_domain:
  "globalPlaybackRate (cyclePlaybackSpeed d s) \<in> rateDomain \<and>
   localStorage (cyclePlaybackSpeed d s) ''audioPlaybackRate'' =
     Some (globalPlaybackRate (cyclePlaybackSpeed d s))"
  by (simp add: cycle_store rateDomain_def nextRate_def)


section \<open>Unlocking\<close>

text \<open>
  C9, as the code has it. The promise of \<^verbatim>\<open>unlockAudio\<close> never rejects: it resolves
  with a boolean. When audio is unlocked already and the attempt is not forced, the
  call resolves \<^verbatim>\<open>true\<close> and changes nothing. An attempt that runs resolves \<^verbatim>\<open>false\<close>
  exactly when a statement of the outer \<^verbatim>\<open>try\<close> block raises; a failure of the
  AudioContext technique or a rejected silent \<^verbatim>\<open>play()\<close> is absorbed by its own
  handler and raises nothing there.
\<close>

theorem unlock_never_rejects:
  "(\<exists>b. fst (unlockAudio env forceAttempt preventRecursion s) = Inr b) \<and>
   (audioUnlocked s \<longrightarrow> unlockAudio env False preventRecursion s = (Inr True, s)) \<and>
   (\<not> (audioUnlocked s \<and> \<not> forceAttempt) \<and> \<not> (audioUnlockAttempts s > 5 \<and> \<not> forceAttempt) \<longrightarrow>
      fst (unlockAudio env forceAttempt preventRecursion s) =
        Inr (fst (unlock_body env forceAttempt preventRecursion
                    (s\<lparr>audioUnlockAttempts := audioUnlockAttempts s + 1\<rparr>)) = None)) \<and>
   (syncFault env = None \<longrightarrow> fst (unlock_body env forceAttempt preventRecursion s) = None)"
proof -
  have t2: "\<And>is t. syncFault env = None \<Longrightarrow> fst (technique2 env is t) = None"
  proof -
    fix "is" t assume n: "syncFault env = None"
    show "fst (technique2 env is t) = None" using n by (induction "is" arbitrary: t) simp_all
  qed
  have c: "syncFault env = None \<longrightarrow> fst (unlock_body env forceAttempt preventRecursion s) = None"
  proof
    assume n: "syncFault env = None"
    show "fst (unlock_body env forceAttempt preventRecursion s) = None"
      using t2 [OF n]
      by (auto simp add: unlock_body_def and_then_def technique1_caught_def n Let_def
          createInlineAudioElement_def simulateUserInteractions_def storeUnlockedAudio_def
          split: prod.splits option.splits dest: fst_eqD)
  qed
  have b: "\<not> (audioUnlocked s \<and> \<not> forceAttempt) \<and> \<not> (audioUnlockAttempts s > 5 \<and> \<not> forceAttempt) \<longrightarrow>
      fst (unlockAudio env forceAttempt preventRecursion s) =
        Inr (fst (unlock_body env forceAttempt preventRecursion
                    (s\<lparr>audioUnlockAttempts := audioUnlockAttempts s + 1\<rparr>)) = None)"
    by (auto simp add: unlockAudio_def Let_def split: prod.splits option.splits)
  have a: "audioUnlocked s \<longrightarrow> unlockAudio env False preventRecursion s = (Inr True, s)"
    by (simp add: unlockAudio_def)
  show ?thesis using unlockAudio_resolves [of env forceAttempt preventRecursion s] a b c by blast
qed

theorem unlock_never_rejects_witness:
  "audioUnlocked (audio0\<lparr>audioUnlocked := True\<rparr>) \<and>
   unlockAudio calm_unlock False False (audio0\<lparr>audioUnlocked := True\<rparr>) =
     (Inr True, audio0\<lparr>audioUnlocked := True\<rparr>) \<and>
   fst (unlockAudio calm_unlock True False (audio0\<lparr>audioUnlocked := True\<rparr>)) = Inr True \<and>
   syncFault calm_unlock = None"
proof -
  have n: "syncFault calm_unlock = None" by (simp add: calm_unlock_def)
  have a: "audioUnlocked (audio0\<lparr>audioUnlocked := True\<rparr>)" by simp
  show ?thesis
    using unlock_never_rejects [of calm_unlock True False "audio0\<lparr>audioUnlocked := True\<rparr>"]
      unlock_never_rejects [of calm_unlock False False "audio0\<lparr>audioUnlocked := True\<rparr>"]
      unlock_never_rejects [of calm_unlock True False
        "audio0\<lparr>audioUnlocked := True, audioUnlockAttempts := Suc (audioUnlockAttempts audio0)\<rparr>"] n a
    by simp
qed

text \<open>
  C9 as stated fails: in a forced attempt whose AudioContext technique throws, the
  failure is caught and the promise still resolves \<^verbatim>\<open>true\<close>.
\<close>

theorem unlock_failure_cex:
  "fst (technique1 context_failing_unlock True audio0) = Some DeviceError \<and>
   fst (unlockAudio context_failing_unlock True False audio0) = Inr True"
  by (simp add: technique1_def unlockAudio_def unlock_body_def and_then_def technique1_caught_def
      createInlineAudioElement_def simulateUserInteractions_def storeUnlockedAudio_def
      context_failing_unlock_def audio0_def Let_def)


section \<open>Speaking a message whose audio is empty\<close>

text \<open>
  C6. When the synthesis request answers with a success status, an audio content type
  and a body of no bytes, \<^verbatim>\<open>speakMessage\<close> rejects with the error
  \<^verbatim>\<open>Received empty audio blob\<close>, and the vocal button of the message, if it has one, is
  left without the loading class and with the default icon.
\<close>

theorem empty_audio_rejected:
  assumes d: "divs s d \<noteq> None"
    and f: "ttsFetch env txt = FetchResponse r"
    and ok: "r_ok r" and ct: "r_contentType r = Some c" and au: "str_includes c ''audio/''"
    and z: "r_body r = []"
  shows "fst (speakMessage env d txt s) = Inl EmptyAudioBlob \<and>
         (entryVocal d s = None \<longrightarrow> entryVocal d (snd (speakMessage env d txt s)) = None) \<and>
         (entryVocal d s \<noteq> None \<longrightarrow>
            (\<exists>v. entryVocal d (snd (speakMessage env d txt s)) = Some v \<and>
                 \<not> vb_loading v \<and> vb_icon v = Some VocalIcon))"
proof -
  have "requestTTS (ttsFetch env txt) (objectUrl env) = Inl EmptyAudioBlob"
    using f ok ct au z by (simp add: requestTTS_def)
  then show ?thesis using speak_empty [OF d] by blast
qed

theorem empty_audio_rejected_witness:
  "divs two_messages 3 \<noteq> None \<and>
   ttsFetch empty_audio_env ''hello'' = FetchResponse empty_audio_response \<and>
   r_ok empty_audio_response \<and> r_contentType empty_audio_response = Some ''audio/mpeg'' \<and>
   str_includes ''audio/mpeg'' ''audio/'' \<and> r_body empty_audio_response = [] \<and>
   entryVocal 3 two_messages \<noteq> None \<and>
   fst (speakMessage empty_audio_env 3 ''hello'' two_messages) = Inl EmptyAudioBlob \<and>
   (\<exists>v. entryVocal 3 (snd (speakMessage empty_audio_env 3 ''hello'' two_messages)) = Some v \<and>
        \<not> vb_loading v \<and> vb_icon v = Some VocalIcon)"
proof -
  have d: "divs two_messages 3 \<noteq> None" by (rule two_messages_facts(2))
  have f: "ttsFetch empty_audio_env ''hello'' = FetchResponse empty_audio_response"
    by (simp add: empty_audio_env_def)
  have ok: "r_ok empty_audio_response" by (simp add: empty_audio_response_def)
  have ct: "r_contentType empty_audio_response = Some ''audio/mpeg''"
    by (simp add: empty_audio_response_def)
  have au: "str_includes ''audio/mpeg'' ''audio/''" by simp
  have z: "r_body empty_audio_response = []" by (simp add: empty_audio_response_def)
  have v: "entryVocal 3 two_messages \<noteq> None"
    by (simp add: entryVocal_def two_messages_def audio0_def bot_message_def)
  show ?thesis
    using empty_audio_rejected [OF d f ok ct au z] d f ok ct au z v by simp
qed

section \<open>Lemmas about the recording manager\<close>

lemma set_input_proj [simp]:
  "inputValue (set_input v s) = map_option (\<lambda>_. v) (inputValue s)"
  "isRecording (set_input v s) = isRecording s"
  "micStream (set_input v s) = micStream s"
  "(userInput (set_input v s) = None) = (userInput s = None)"
  by (simp_all add: set_input_def inputValue_def option.map_comp comp_def)

lemma inputValue_frame [simp]:
  "inputValue (isRecording_update f1 s) = inputValue s"
  "inputValue (recordingTimer_update f2 s) = inputValue s"
  "inputValue (recordingStartTime_update f3 s) = inputValue s"
  "inputValue (timers_update f4 s) = inputValue s"
  "inputValue (recognition_update f5 s) = inputValue s"
  "inputValue (micStream_update f6 s) = inputValue s"
  "inputValue (audioContext_update f7 s) = inputValue s"
  "inputValue (analyser_update f8 s) = inputValue s"
  "inputValue (processingTranscript_update f9 s) = inputValue s"
  "inputValue (recordingUI_update f10 s) = inputValue s"
  "inputValue (mediaRecorder_update f11 s) = inputValue s"
  "inputValue (recordRTC_update f12 s) = inputValue s"
  "inputValue (chatLog_update f13 s) = inputValue s"
  "inputValue (alerts_update f14 s) = inputValue s"
  by (simp_all add: inputValue_def)

lemma schedule_proj [simp]:
  "inputValue (schedule t s) = inputValue s"
  "userInput (schedule t s) = userInput s"
  by (simp_all add: schedule_def)

lemma stop_capture_input:
  "userInput (snd (stop_capture False s)) = userInput s"
  by (simp add: stop_capture_def and_then_def abort_recognizer_def Let_def schedule_def
        split: option.splits recorder_ref.splits)

lemma stop_capture_false:
  "\<not> staleRecorder s \<Longrightarrow> fst (stop_capture False s) = None"
  by (auto simp add: stop_capture_def and_then_def abort_recognizer_def Let_def schedule_def
        staleRecorder_def split: option.splits recorder_ref.splits)

lemma stop_tail_input:
  assumes ut: "userInput t = Some u"
  shows "hideRecordingUI (set_input [] (close_context (release_microphone t))) =
           (None, snd (hideRecordingUI (set_input [] (close_context (release_microphone t))))) \<and>
         inputValue (snd (hideRecordingUI (set_input [] (close_context (release_microphone t))))) =
           Some []"
proof -
  let ?t1 = "set_input [] (close_context (release_microphone t))"
  have u1: "userInput ?t1 = Some (u\<lparr>ui_value := []\<rparr>)"
    using ut by (simp add: set_input_def close_context_def release_microphone_def Let_def
        schedule_def split: option.splits)
  have h: "hideRecordingUI ?t1 = (None, case recordingUI ?t1 of None \<Rightarrow> ?t1
                | Some x \<Rightarrow> ?t1\<lparr>recordingUI := Some False\<rparr>)"
    using u1 by (simp add: hideRecordingUI_def split: option.splits)
  have i: "inputValue (snd (hideRecordingUI ?t1)) = Some []"
    using h u1 by (simp add: inputValue_def split: option.splits)
  show ?thesis using h i by simp
qed

lemma stop_false_input:
  assumes u: "userInput s = Some u" and a: "isRecording s \<or> micStream s \<noteq> None"
    and ns: "\<not> staleRecorder s"
  shows "fst (stopRecording False s) = None \<and> inputValue (snd (stopRecording False s)) = Some []"
proof -
  let ?s0 = "s\<lparr>isRecording := False, recordingTimer := False, recordingStartTime := 0\<rparr>"
  obtain e t where c: "stop_capture False ?s0 = (e, t)" by (cases "stop_capture False ?s0")
  have ns0: "\<not> staleRecorder ?s0" using ns by (simp add: staleRecorder_def)
  have e: "e = None" using stop_capture_false [OF ns0] c by simp
  have ut: "userInput t = Some u" using stop_capture_input [of ?s0] c u by simp
  let ?t1 = "set_input [] (close_context (release_microphone t))"
  have h: "hideRecordingUI ?t1 = (None, snd (hideRecordingUI ?t1))"
    and i: "inputValue (snd (hideRecordingUI ?t1)) = Some []"
    using stop_tail_input [OF ut] by simp_all
  have n: "\<not> (\<not> isRecording s \<and> micStream s = None)" using a by blast
  have r: "stopRecording False s =
      (None, schedule (FinishStop False) (snd (hideRecordingUI ?t1)))"
    apply (subst stopRecording_def)
    apply (subst if_not_P [OF n])
    apply (subst and_then_def)
    apply (simp add: c e)
    apply (subst and_then_def)
    apply (subst h)
    apply simp
    done
  show ?thesis using r i by simp
qed

lemma stop_false_keeps_empty:
  assumes u: "userInput s = Some u" and v: "ui_value u = []"
  shows "inputValue (snd (stopRecording False s)) = Some []"
proof (cases "\<not> isRecording s \<and> micStream s = None")
  case True
  then show ?thesis using u v by (simp add: stopRecording_def inputValue_def)
next
  case False
  let ?s0 = "s\<lparr>isRecording := False, recordingTimer := False, recordingStartTime := 0\<rparr>"
  obtain e t where c: "stop_capture False ?s0 = (e, t)" by (cases "stop_capture False ?s0")
  have ut: "userInput t = Some u" using stop_capture_input [of ?s0] c u by simp
  let ?t1 = "set_input [] (close_context (release_microphone t))"
  have h: "hideRecordingUI ?t1 = (None, snd (hideRecordingUI ?t1))"
    and i: "inputValue (snd (hideRecordingUI ?t1)) = Some []"
    using stop_tail_input [OF ut] by simp_all
  show ?thesis
  proof (cases e)
    case None
    have r: "stopRecording False s =
        (None, schedule (FinishStop False) (snd (hideRecordingUI ?t1)))"
      apply (subst stopRecording_def)
      apply (subst if_not_P [OF False])
      apply (subst and_then_def)
      apply (simp add: c None)
      apply (subst and_then_def)
      apply (subst h)
      apply simp
      done
    show ?thesis using r i by simp
  next
    case (Some x)
    have r: "stopRecording False s = (Some x, t)"
      apply (subst stopRecording_def)
      apply (subst if_not_P [OF False])
      apply (subst and_then_def)
      apply (simp add: c Some)
      done
    show ?thesis using r ut v by (simp add: inputValue_def)
  qed
qed

lemma finish_stop_false_input: "inputValue (finish_stop env False s) = inputValue s"
  by (simp add: finish_stop_def Let_def inputValue_def option.map_comp comp_def
        split: option.splits)

lemma recorder_stopped_false_input: "inputValue (recorder_stopped env False s) = inputValue s"
  by (simp add: recorder_stopped_def Let_def)

lemma typing_facts:
  "userInput typing = Some \<lparr>ui_value = ''draft'', ui_readOnly = False\<rparr>"
  "inputValue typing = Some ''draft''" "\<not> isRecording typing"
  by (simp_all add: typing_def rec0_def inputValue_def)

lemma start_typing:
  "fst (startRecording desktop_env typing) = None"
  "isRecording (snd (startRecording desktop_env typing))"
  "userInput (snd (startRecording desktop_env typing)) = Some \<lparr>ui_value = ''draft'', ui_readOnly = True\<rparr>"
  "\<not> staleRecorder (snd (startRecording desktop_env typing))"
  by (simp_all add: startRecording_def typing_def rec0_def and_then_def schedule_def Let_def
        staleRecorder_def)

lemma click_recording: "isRecording s \<Longrightarrow> voiceButton_click env s = (None, s)"
  by (simp add: voiceButton_click_def click_try_def)

lemma click_rec0:
  "fst (voiceButton_click desktop_env rec0) = None"
  "isRecording (snd (voiceButton_click desktop_env rec0))"
  "micRequests (snd (voiceButton_click desktop_env rec0)) = 1"
  "timers (snd (voiceButton_click desktop_env rec0)) = [DrawWaveform, SetupRecognition]"
  "micStream (snd (voiceButton_click desktop_env rec0)) = Some \<lparr>ms_id = 7, ms_active = True\<rparr>"
  "alerts (snd (voiceButton_click desktop_env rec0)) = []"
  by (simp_all add: voiceButton_click_def click_try_def acquire_microphone_def
      resetMicrophoneAccess_def prepare_analysis_def startRecording_def and_then_def
      schedule_def rec0_def desktop_env_def Let_def)

lemma recording1_facts:
  "isRecording recording1" "recognition recording1 = Some \<lparr>rec_started = True\<rparr>"
  "micRequests recording1 = 1" "alerts recording1 = []"
  using click_rec0
  by (simp_all add: recording1_def fire_def setup_recognition_def Let_def desktop_env_def)

section \<open>Starting a recording while one is active\<close>

text \<open>
  C2. While a recording is active (\<^verbatim>\<open>isRecording\<close> is true), every click on the voice
  button, whatever the platform would answer, and every call of \<^verbatim>\<open>startRecording\<close>
  returns at once: no exception, no alert, no call of \<^verbatim>\<open>getUserMedia\<close>, and the state
  is the one before. So after any sequence of such clicks the one session is still
  active, with the microphone stream it had.
\<close>

theorem clicks_while_recording_ignored:
  "isRecording s \<Longrightarrow>
   voiceButton_click env s = (None, s) \<and> startRecording env s = (None, s) \<and>
   clicks envs s = s \<and>
   isRecording (clicks envs s) \<and> micRequests (clicks envs s) = micRequests s \<and>
   alerts (clicks envs s) = alerts s \<and> micStream (clicks envs s) = micStream s"
proof -
  assume r: "isRecording s"
  have "clicks envs s = s" using r by (induction envs) (simp_all add: click_recording)
  then show ?thesis using r by (simp add: startRecording_def click_recording)
qed

theorem clicks_while_recording_ignored_witness:
  "isRecording recording1 \<and>
   clicks [desktop_env, desktop_env] recording1 = recording1 \<and>
   micRequests (clicks [desktop_env, desktop_env] recording1) = 1 \<and>
   alerts (clicks [desktop_env, desktop_env] recording1) = []"
  using clicks_while_recording_ignored [OF recording1_facts(1), of desktop_env "[desktop_env, desktop_env]"]
    recording1_facts
  by simp

section \<open>Cancelling a recording\<close>

text \<open>
  C3, as the code has it. With an input field, the click on the cancel button leaves
  the field empty, whatever it held before the recording or received during it; the
  field is still empty after the timer of \<^verbatim>\<open>stopRecording\<close> and after the callback of
  the recorder. The Escape key during a recording does what the cancel button does.
  Unless \<^verbatim>\<open>this.recordRTC\<close> still holds what a fallback recording left on Android, the
  click raises nothing, and \<^verbatim>\<open>stopRecording(false)\<close> on a session that is active or
  holds a microphone stream raises nothing and empties the field as well.
\<close>

theorem cancel_clears_input:
  assumes u: "userInput s = Some u"
  shows "inputValue (snd (cancelButton_click s)) = Some [] \<and>
         inputValue (snd (fire env (FinishStop False) (snd (cancelButton_click s)))) = Some [] \<and>
         inputValue (snd (fire env (RecorderStopped False) (snd (cancelButton_click s)))) = Some [] \<and>
         (isRecording s \<longrightarrow> document_keydown ''Escape'' s = cancelButton_click s) \<and>
         (\<not> staleRecorder s \<longrightarrow> fst (cancelButton_click s) = None) \<and>
         (\<not> staleRecorder s \<and> (isRecording s \<or> micStream s \<noteq> None) \<longrightarrow>
            fst (stopRecording False s) = None \<and>
            inputValue (snd (stopRecording False s)) = Some [])"
proof -
  let ?s1 = "set_input [] (abort_recognizer s)"
  have u1: "userInput ?s1 = Some (u\<lparr>ui_value := []\<rparr>)"
    using u by (simp add: set_input_def abort_recognizer_def)
  have c: "cancelButton_click s = stopRecording False ?s1"
    using u by (simp add: cancelButton_click_def abort_recognizer_def Let_def)
  have i1: "inputValue ?s1 = Some []" using u1 by (simp add: inputValue_def)
  have st: "staleRecorder ?s1 = staleRecorder s"
    by (simp add: staleRecorder_def set_input_def abort_recognizer_def)
  have k: "inputValue (snd (stopRecording False ?s1)) = Some []"
    using stop_false_keeps_empty [OF u1] by simp
  have x: "\<not> staleRecorder s \<longrightarrow> fst (stopRecording False ?s1) = None"
  proof
    assume ns: "\<not> staleRecorder s"
    show "fst (stopRecording False ?s1) = None"
    proof (cases "isRecording ?s1 \<or> micStream ?s1 \<noteq> None")
      case True
      then show ?thesis using stop_false_input [OF u1 True] ns st by simp
    next
      case False
      then show ?thesis by (simp add: stopRecording_def)
    qed
  qed
  have f: "inputValue (snd (fire env (FinishStop False) (snd (cancelButton_click s)))) = Some []"
    using k c by (simp add: fire_def Let_def finish_stop_false_input)
  have g: "inputValue (snd (fire env (RecorderStopped False) (snd (cancelButton_click s)))) = Some []"
    using k c by (simp add: fire_def Let_def recorder_stopped_false_input)
  have e: "isRecording s \<longrightarrow> document_keydown ''Escape'' s = cancelButton_click s"
    by (simp add: document_keydown_def)
  have d: "\<not> staleRecorder s \<and> (isRecording s \<or> micStream s \<noteq> None) \<longrightarrow>
            fst (stopRecording False s) = None \<and>
            inputValue (snd (stopRecording False s)) = Some []"
    using stop_false_input [OF u] by blast
  show ?thesis using k x c f g e d by simp
qed

theorem cancel_clears_input_witness:
  "userInput (snd (startRecording desktop_env typing)) = Some \<lparr>ui_value = ''draft'', ui_readOnly = True\<rparr> \<and>
   isRecording (snd (startRecording desktop_env typing)) \<and>
   \<not> staleRecorder (snd (startRecording desktop_env typing)) \<and>
   fst (cancelButton_click (snd (startRecording desktop_env typing))) = None \<and>
   inputValue (snd (cancelButton_click (snd (startRecording desktop_env typing)))) = Some [] \<and>
   document_keydown ''Escape'' (snd (startRecording desktop_env typing)) =
     cancelButton_click (snd (startRecording desktop_env typing)) \<and>
   inputValue (snd (stopRecording False (snd (startRecording desktop_env typing)))) = Some []"
  using cancel_clears_input [OF start_typing(3), of desktop_env] start_typing(2,3,4)
  by simp

text \<open>
  C3 as stated fails: a draft typed before \<^verbatim>\<open>startRecording\<close> is still in the field
  when the recording has started, and it is gone after the cancel button.
\<close>

theorem cancel_keeps_input_cex:
  "inputValue typing = Some ''draft'' \<and>
   inputValue (snd (startRecording desktop_env typing)) = Some ''draft'' \<and>
   inputValue (snd (cancelButton_click (snd (startRecording desktop_env typing)))) = Some [] \<and>
   inputValue (snd (cancelButton_click (snd (startRecording desktop_env typing)))) \<noteq> inputValue typing"
proof -
  let ?r = "snd (startRecording desktop_env typing)"
  have u1: "userInput (set_input [] (abort_recognizer ?r)) = Some \<lparr>ui_value = [], ui_readOnly = True\<rparr>"
    using start_typing(3) by (simp add: set_input_def abort_recognizer_def)
  have c: "cancelButton_click ?r = stopRecording False (set_input [] (abort_recognizer ?r))"
    using start_typing(3) by (simp add: cancelButton_click_def abort_recognizer_def Let_def)
  have "inputValue (snd (stopRecording False (set_input [] (abort_recognizer ?r)))) = Some []"
    using stop_false_keeps_empty [OF u1] by simp
  then show ?thesis using c start_typing(3) by (auto simp add: typing_facts inputValue_def)
qed

section \<open>Transient events of the recognizer\<close>

text \<open>
  C7. While a recording is active, the \<^verbatim>\<open>onerror\<close> handler ignores the error
  \<^verbatim>\<open>aborted\<close>: it raises nothing and changes nothing. When the engine ends, the
  \<^verbatim>\<open>onend\<close> handler schedules a restart and the session stays active, with its
  microphone stream and without an alert. When that timer runs while the session is
  still active and the recognizer is stopped, the recognizer is started again, the
  session stays active and nothing is alerted.
\<close>

theorem recognizer_transients_absorbed:
  "isRecording s \<Longrightarrow>
   recognition_onerror ''aborted'' s = (None, s) \<and>
   recognition_onend s = schedule RestartRecognition s \<and>
   recognizer_ended s = schedule RestartRecognition (abort_recognizer s) \<and>
   isRecording (recognizer_ended s) \<and> alerts (recognizer_ended s) = alerts s \<and>
   micStream (recognizer_ended s) = micStream s \<and>
   RestartRecognition \<in> set (timers (recognizer_ended s)) \<and>
   (\<forall>r. recognition s = Some r \<longrightarrow>
      fst (fire env RestartRecognition (recognizer_ended s)) = None \<and>
      recognition (snd (fire env RestartRecognition (recognizer_ended s))) =
        Some (r\<lparr>rec_started := True\<rparr>) \<and>
      isRecording (snd (fire env RestartRecognition (recognizer_ended s))) \<and>
      alerts (snd (fire env RestartRecognition (recognizer_ended s))) = alerts s) \<and>
   (\<forall>r. recognition s = Some r \<and> \<not> rec_started r \<longrightarrow>
      fst (fire env RestartRecognition s) = None \<and>
      recognition (snd (fire env RestartRecognition s)) = Some (r\<lparr>rec_started := True\<rparr>) \<and>
      isRecording (snd (fire env RestartRecognition s)) \<and>
      alerts (snd (fire env RestartRecognition s)) = alerts s)"
  by (auto simp add: recognition_onerror_def recognizer_ended_def recognition_onend_def
      abort_recognizer_def schedule_def fire_def restart_recognition_def Let_def)

theorem recognizer_transients_absorbed_witness:
  "isRecording recording1 \<and> recognition recording1 = Some \<lparr>rec_started = True\<rparr> \<and>
   recognition_onerror ''aborted'' recording1 = (None, recording1) \<and>
   isRecording (recognizer_ended recording1) \<and>
   recognition (recognizer_ended recording1) = Some \<lparr>rec_started = False\<rparr> \<and>
   recognition (snd (fire desktop_env RestartRecognition (recognizer_ended recording1))) =
     Some \<lparr>rec_started = True\<rparr> \<and>
   isRecording (snd (fire desktop_env RestartRecognition (recognizer_ended recording1)))"
proof -
  have e: "recognition (recognizer_ended recording1) = Some \<lparr>rec_started = False\<rparr>"
    using recording1_facts(1,2)
    by (simp add: recognizer_ended_def recognition_onend_def abort_recognizer_def schedule_def)
  have i: "isRecording (recognizer_ended recording1)"
    using recording1_facts(1)
    by (simp add: recognizer_ended_def recognition_onend_def abort_recognizer_def schedule_def)
  have n: "\<not> rec_started \<lparr>rec_started = False\<rparr>" by simp
  show ?thesis
    using recognizer_transients_absorbed [OF recording1_facts(1), of desktop_env]
      recognizer_transients_absorbed [OF i, of desktop_env] recording1_facts(1,2) e i n
    by simp
qed

section \<open>Sending audio for transcription\<close>

text \<open>
  C8. \<^verbatim>\<open>sendAudioToBackend\<close> makes at least one and at most two requests. The first
  carries the compression field exactly when the blob is larger than the threshold. A
  blob within the threshold is sent once, without the field, and the call settles as
  that request does. For a larger blob, if the compressed request succeeds the call
  resolves with its transcript; if it fails (the fetch rejects, the status is not a
  success or the body cannot be parsed) exactly one more request is made, without the
  field, and the call settles as that request does: its failure is the rejection.
\<close>

theorem transcription_fallback_once:
  "(let big = (length blob > compressionThreshold);
        compressed = \<lparr>q_file = blob, q_compress = True, q_language = lang\<rparr>;
        plain = \<lparr>q_file = blob, q_compress = False, q_language = lang\<rparr>;
        res = fst (sendAudioToBackend server lang blob);
        reqs = snd (sendAudioToBackend server lang blob)
    in reqs \<noteq> [] \<and> q_compress (hd reqs) = big \<and> length reqs \<le> 2 \<and>
       (\<not> big \<longrightarrow> reqs = [plain] \<and> res = post_speech (server plain)) \<and>
       (big \<longrightarrow>
          (case post_speech (server compressed) of
             Inr t \<Rightarrow> reqs = [compressed] \<and> res = Inr t
           | Inl e \<Rightarrow> reqs = [compressed, plain] \<and> res = post_speech (server plain))))"
  by (simp add: sendAudioToBackend_def Let_def split: sum.splits)

theorem transcription_fallback_once_witness:
  "length big_blob > compressionThreshold \<and>
   \<not> length ([] :: 8 word list) > compressionThreshold \<and>
   snd (sendAudioToBackend failing_server ''fr'' big_blob) =
     [\<lparr>q_file = big_blob, q_compress = True, q_language = ''fr''\<rparr>,
      \<lparr>q_file = big_blob, q_compress = False, q_language = ''fr''\<rparr>] \<and>
   fst (sendAudioToBackend failing_server ''fr'' big_blob) = Inl (ServerResponded 500 ''busy'') \<and>
   snd (sendAudioToBackend failing_server ''fr'' []) =
     [\<lparr>q_file = [], q_compress = False, q_language = ''fr''\<rparr>]"
proof -
  have b: "length big_blob > compressionThreshold"
    by (simp add: big_blob_def compressionThreshold_def)
  have s: "\<not> length ([] :: 8 word list) > compressionThreshold"
    by (simp add: compressionThreshold_def)
  have c: "post_speech (failing_server \<lparr>q_file = big_blob, q_compress = True, q_language = ''fr''\<rparr>)
      = Inl NetworkFailure"
    by (simp add: post_speech_def failing_server_def)
  have p: "post_speech (failing_server \<lparr>q_file = big_blob, q_compress = False, q_language = ''fr''\<rparr>)
      = Inl (ServerResponded 500 ''busy'')"
    by (simp add: post_speech_def failing_server_def)
  show ?thesis
    using transcription_fallback_once [of big_blob "''fr''" failing_server]
      transcription_fallback_once [of "[]" "''fr''" failing_server] b s c p
    by (simp add: Let_def)
qed

end
